theory Spec2Isabelle
  imports Main "HOL-Library.Word"
begin

unbundle bit_operations_syntax

section \<open>Machine arithmetic of the C sources\<close>

text \<open>
  Signed C integers are modelled as \<open>int\<close> with every narrowing written out: \<open>s32\<close> is the
  conversion to \<open>int32_t\<close> (two's complement wrap-around), \<open>s16\<close> the one to \<open>int16_t\<close>.
  Products of two \<open>int32_t\<close> values formed in \<open>int64_t\<close> cannot leave 64 bits, so the
  64-bit intermediate is the exact product.  \<open>>>\<close> on a signed value is the arithmetic
  shift (\<open>asr\<close>, rounding towards minus infinity), \<open>/\<close> truncates towards zero (\<open>c_div\<close>).
  Unsigned C integers (\<open>uint32_t\<close>, \<open>uint8_t\<close>) are words.
\<close>

definition s32 :: "int \<Rightarrow> int" where
  "s32 x = (x + 2147483648) mod 4294967296 - 2147483648"

definition s16 :: "int \<Rightarrow> int" where
  "s16 x = (x + 32768) mod 65536 - 32768"

definition asr :: "int \<Rightarrow> nat \<Rightarrow> int" where
  "asr x n = x div 2 ^ n"

definition c_div :: "int \<Rightarrow> int \<Rightarrow> int" where
  "c_div a b = sgn a * sgn b * (\<bar>a\<bar> div \<bar>b\<bar>)"

text \<open>\<open>clamp_s24\<close>, repeated verbatim in every module of the sources.\<close>

definition clamp_s24 :: "int \<Rightarrow> int" where
  "clamp_s24 x = (if x > 8388607 then 8388607 else if x < - 8388608 then - 8388608 else x)"

definition abs_s32 :: "int \<Rightarrow> int" where
  "abs_s32 x = (if x \<ge> 0 then x else s32 (- x))"

definition gain_s32_q8 :: "int \<Rightarrow> int \<Rightarrow> int" where
  "gain_s32_q8 x gain_q8 = s32 (asr (x * gain_q8) 8)"

definition mix_s24 :: "int \<Rightarrow> int \<Rightarrow> int \<Rightarrow> int" where
  "mix_s24 dry wet mix_q15 =
     (let a = s32 (32768 - mix_q15) in s32 (asr (dry * a + wet * mix_q15) 15))"

text \<open>The range of a sample: signed 24 bit.\<close>

definition in_s24 :: "int \<Rightarrow> bool" where
  "in_s24 x = (- 8388608 \<le> x \<and> x \<le> 8388607)"

section \<open>dsp\_filters: state\<close>

record DcBlockState =
  dc_x1 :: int
  dc_y1 :: int

record CompState =
  env :: int
  comp_gain_q15 :: int

record BiquadState =
  bq_x1 :: int
  bq_x2 :: int
  bq_y1 :: int
  bq_y2 :: int

record LimiterState =
  lim_gain_q15 :: int

record FiltersState =
  s_limiter :: LimiterState
  s_dc_l :: DcBlockState
  s_dc_r :: DcBlockState
  s_clean_hpf_l :: DcBlockState
  s_clean_hpf_r :: DcBlockState
  s_wet_hpf_delay_l :: DcBlockState
  s_wet_hpf_delay_r :: DcBlockState
  s_wet_hpf_reverb_l :: DcBlockState
  s_wet_hpf_reverb_r :: DcBlockState
  s_comp_l :: CompState
  s_comp_r :: CompState
  s_cab_l :: BiquadState
  s_cab_r :: BiquadState
  s_wet_lpf_delay_l :: int
  s_wet_lpf_delay_r :: int
  s_wet_lpf_reverb_l :: int
  s_wet_lpf_reverb_r :: int

definition AUDIO_LIMITER_THRESH_S24 :: int where "AUDIO_LIMITER_THRESH_S24 = 6500000"
definition AUDIO_LIMITER_RELEASE_Q15 :: int where "AUDIO_LIMITER_RELEASE_Q15 = 16"
definition CLEAN_COMP_THRESH_S24 :: int where "CLEAN_COMP_THRESH_S24 = 3000000"
definition CLEAN_COMP_RATIO :: int where "CLEAN_COMP_RATIO = 2"
definition CLEAN_COMP_ENV_ATTACK_Q15 :: int where "CLEAN_COMP_ENV_ATTACK_Q15 = 4096"
definition CLEAN_COMP_ENV_RELEASE_Q15 :: int where "CLEAN_COMP_ENV_RELEASE_Q15 = 256"
definition CLEAN_COMP_GAIN_ATTACK_Q15 :: int where "CLEAN_COMP_GAIN_ATTACK_Q15 = 8192"
definition CLEAN_COMP_GAIN_RELEASE_Q15 :: int where "CLEAN_COMP_GAIN_RELEASE_Q15 = 512"
definition CAB_B0_Q28 :: int where "CAB_B0_Q28 = 19407624"
definition CAB_B1_Q28 :: int where "CAB_B1_Q28 = 38815248"
definition CAB_B2_Q28 :: int where "CAB_B2_Q28 = 19407624"
definition CAB_A1_Q28 :: int where "CAB_A1_Q28 = - 297323915"
definition CAB_A2_Q28 :: int where "CAB_A2_Q28 = 106689359"

definition dc_zero :: DcBlockState where
  "dc_zero = \<lparr>dc_x1 = 0, dc_y1 = 0\<rparr>"

definition comp_unity :: CompState where
  "comp_unity = \<lparr>env = 0, comp_gain_q15 = 32768\<rparr>"

definition biquad_zero :: BiquadState where
  "biquad_zero = \<lparr>bq_x1 = 0, bq_x2 = 0, bq_y1 = 0, bq_y2 = 0\<rparr>"

text \<open>\<open>DspFilters_Init\<close> assigns every field of the module, so the result is one constant.\<close>

definition DspFilters_Init :: FiltersState where
  "DspFilters_Init =
     \<lparr>s_limiter = \<lparr>lim_gain_q15 = 32768\<rparr>,
      s_dc_l = dc_zero, s_dc_r = dc_zero,
      s_clean_hpf_l = dc_zero, s_clean_hpf_r = dc_zero,
      s_wet_hpf_delay_l = dc_zero, s_wet_hpf_delay_r = dc_zero,
      s_wet_hpf_reverb_l = dc_zero, s_wet_hpf_reverb_r = dc_zero,
      s_comp_l = comp_unity, s_comp_r = comp_unity,
      s_cab_l = biquad_zero, s_cab_r = biquad_zero,
      s_wet_lpf_delay_l = 0, s_wet_lpf_delay_r = 0,
      s_wet_lpf_reverb_l = 0, s_wet_lpf_reverb_r = 0\<rparr>"

section \<open>dsp\_filters: processing\<close>

definition DspFilters_DcBlock :: "DcBlockState \<Rightarrow> int \<Rightarrow> int \<times> DcBlockState" where
  "DspFilters_DcBlock st x =
     (let r_q15 = 32684;
          y = s32 (s32 (x - dc_x1 st) + s32 (asr (r_q15 * dc_y1 st) 15))
      in (clamp_s24 y, \<lparr>dc_x1 = x, dc_y1 = y\<rparr>))"

definition DspFilters_Hpf1 :: "DcBlockState \<Rightarrow> int \<Rightarrow> int \<Rightarrow> int \<times> DcBlockState" where
  "DspFilters_Hpf1 st x r_q15 =
     (let y = s32 (s32 (x - dc_x1 st) + s32 (asr (r_q15 * dc_y1 st) 15))
      in (clamp_s24 y, \<lparr>dc_x1 = x, dc_y1 = y\<rparr>))"

definition DspFilters_CompressOne :: "CompState \<Rightarrow> int \<Rightarrow> int \<times> CompState" where
  "DspFilters_CompressOne st x_s24 =
     (let x = abs_s32 x_s24;
          env0 = env st;
          diff = s32 (x - env0);
          k_env = (if diff > 0 then CLEAN_COMP_ENV_ATTACK_Q15 else CLEAN_COMP_ENV_RELEASE_Q15);
          env1 = s32 (env0 + s32 (asr (k_env * diff) 15));
          env2 = (if env1 < 0 then 0 else env1);
          target_gain_q15 =
            (if env2 > CLEAN_COMP_THRESH_S24
             then let over = s32 (env2 - CLEAN_COMP_THRESH_S24);
                      out_env = s32 (CLEAN_COMP_THRESH_S24 + c_div over CLEAN_COMP_RATIO);
                      t = s32 (c_div (out_env * 32768) env2);
                      t1 = (if t < 0 then 0 else t)
                  in (if t1 > 32768 then 32768 else t1)
             else 32768);
          g = comp_gain_q15 st;
          gd = s32 (target_gain_q15 - g);
          k_g = (if gd < 0 then CLEAN_COMP_GAIN_ATTACK_Q15 else CLEAN_COMP_GAIN_RELEASE_Q15);
          g1 = s32 (g + s32 (asr (k_g * gd) 15));
          g2 = (if g1 < 0 then 0 else g1);
          g3 = (if g2 > 32768 then 32768 else g2)
      in (clamp_s24 (s32 (asr (x_s24 * g3) 15)), \<lparr>env = env2, comp_gain_q15 = g3\<rparr>))"

text \<open>
  \<open>DspFilters_Limiter\<close> (and the identical \<open>limiter_process_s24\<close> of the single-file
  variant): one shared gain for both channels.
\<close>

definition DspFilters_Limiter :: "LimiterState \<Rightarrow> int \<Rightarrow> int \<Rightarrow> (int \<times> int) \<times> LimiterState" where
  "DspFilters_Limiter st l r =
     (let a = abs_s32 l;
          b = abs_s32 r;
          peak = (if a > b then a else b);
          target =
            (if peak > AUDIO_LIMITER_THRESH_S24
             then let t = s32 (c_div (AUDIO_LIMITER_THRESH_S24 * 32768) peak);
                      t1 = (if t < 0 then 0 else t)
                  in (if t1 > 32768 then 32768 else t1)
             else 32768);
          g = lim_gain_q15 st;
          g' = (if target < g then target
                else let g1 = s32 (g + s32 (asr (AUDIO_LIMITER_RELEASE_Q15 * s32 (target - g)) 15))
                     in (if g1 > 32768 then 32768 else g1))
      in ((clamp_s24 (s32 (asr (l * g') 15)), clamp_s24 (s32 (asr (r * g') 15))),
          \<lparr>lim_gain_q15 = g'\<rparr>))"

definition DspFilters_CabSim :: "BiquadState \<Rightarrow> int \<Rightarrow> int \<times> BiquadState" where
  "DspFilters_CabSim st x =
     (let acc = CAB_B0_Q28 * x + CAB_B1_Q28 * bq_x1 st + CAB_B2_Q28 * bq_x2 st
                - CAB_A1_Q28 * bq_y1 st - CAB_A2_Q28 * bq_y2 st;
          y = clamp_s24 (s32 (asr acc 28))
      in (y, \<lparr>bq_x1 = x, bq_x2 = bq_x1 st, bq_y1 = y, bq_y2 = bq_y1 st\<rparr>))"

definition DspFilters_OnePole :: "int \<Rightarrow> int \<Rightarrow> int \<Rightarrow> int \<times> int" where
  "DspFilters_OnePole x st a_q15 =
     (let y = clamp_s24 (s32 (st + s32 (asr (a_q15 * s32 (x - st)) 15)))
      in (y, y))"

section \<open>dsp\_distortion\<close>

record DistState =
  hp_x1 :: int
  hp_y1 :: int
  lp_y1 :: int
  os_x1 :: int

record DistModule =
  s_dist_drive_q8 :: int
  s_dist_l :: DistState
  s_dist_r :: DistState

definition dist_zero :: DistState where
  "dist_zero = \<lparr>hp_x1 = 0, hp_y1 = 0, lp_y1 = 0, os_x1 = 0\<rparr>"

definition hard_tube_clip_s24 :: "int \<Rightarrow> int" where
  "hard_tube_clip_s24 x =
     (let thr_pos = 1200000; thr_neg = 900000
      in if x > thr_pos then (let over = s32 (x - thr_pos) in s32 (thr_pos + asr over 10))
         else if x < - thr_neg then (let over = s32 (x + thr_neg) in s32 (- thr_neg + asr over 10))
         else x)"

text \<open>\<open>DspDistortion_Init\<close> resets the two channel states; the drive is not assigned.\<close>

definition DspDistortion_Init :: "DistModule \<Rightarrow> DistModule" where
  "DspDistortion_Init m = m\<lparr>s_dist_l := dist_zero, s_dist_r := dist_zero\<rparr>"

definition DspDistortion_SetDrive :: "int \<Rightarrow> DistModule \<Rightarrow> DistModule" where
  "DspDistortion_SetDrive drive_q8 m =
     (let d1 = (if drive_q8 < 0 then 0 else drive_q8);
          d2 = (if d1 > 131072 then 131072 else d1)
      in m\<lparr>s_dist_drive_q8 := d2\<rparr>)"

definition DspDistortion_GetDrive :: "DistModule \<Rightarrow> int" where
  "DspDistortion_GetDrive m = s_dist_drive_q8 m"

definition DspDistortion_Process :: "int \<Rightarrow> DistState \<Rightarrow> int \<Rightarrow> int \<times> DistState" where
  "DspDistortion_Process drive_q8 st x =
     (let hp_r_q15 = 32113;
          hp_y = s32 (s32 (x - hp_x1 st) + s32 (asr (hp_r_q15 * hp_y1 st) 15));
          d24 = s32 (asr (hp_y * drive_q8) 8);
          d24_mid = asr (s32 (d24 + os_x1 st)) 1;
          y0 = hard_tube_clip_s24 (clamp_s24 d24);
          y1 = hard_tube_clip_s24 (clamp_s24 d24_mid);
          y24 = asr (s32 (y0 + y1)) 1;
          lp_a_q15 = 12000;
          lp = s32 (lp_y1 st + s32 (asr (lp_a_q15 * s32 (y24 - lp_y1 st)) 15));
          level_q8 = 256;
          y24' = s32 (asr (lp * level_q8) 8)
      in (clamp_s24 y24', \<lparr>hp_x1 = x, hp_y1 = hp_y, lp_y1 = lp, os_x1 = d24\<rparr>))"

section \<open>dsp\_delay\<close>

record DelayState =
  idx :: "32 word"
  phase :: "8 word"
  last_out_s24 :: int
  fb_lp_s24 :: int

record DelayModule =
  s_delay_mix_q15 :: int
  s_delay_feedback_q15 :: int
  s_delay_buf_l :: "int list"
  s_delay_buf_r :: "int list"
  s_delay_l :: DelayState
  s_delay_r :: DelayState

definition DELAY_LEN :: nat where "DELAY_LEN = 1024"
definition DELAY_MASK :: "32 word" where "DELAY_MASK = 1023"
definition DELAY_FEEDBACK_Q15 :: int where "DELAY_FEEDBACK_Q15 = 16384"
definition DELAY_MIX_Q15 :: int where "DELAY_MIX_Q15 = 11469"
definition DELAY_DECIM :: nat where "DELAY_DECIM = 8"
definition DELAY_FB_LPF_A_Q15 :: int where "DELAY_FB_LPF_A_Q15 = 1024"

definition delay_zero :: DelayState where
  "delay_zero = \<lparr>idx = 0, phase = 0, last_out_s24 = 0, fb_lp_s24 = 0\<rparr>"

definition s24_to_s16 :: "int \<Rightarrow> int" where
  "s24_to_s16 x =
     (let x1 = asr (clamp_s24 x) 8
      in if x1 > 32767 then 32767 else if x1 < - 32768 then - 32768 else s16 x1)"

definition onepole_lpf_s24 :: "int \<Rightarrow> int \<Rightarrow> int \<Rightarrow> int \<times> int" where
  "onepole_lpf_s24 x st a_q15 =
     (let y = clamp_s24 (s32 (st + s32 (asr (a_q15 * s32 (x - st)) 15)))
      in (y, y))"

text \<open>
  \<open>DspDelay_Init\<close> clears both buffers (\<open>memset\<close> over the whole array) and the two channel
  states; mix and feedback are not assigned.
\<close>

definition DspDelay_Init :: "DelayModule \<Rightarrow> DelayModule" where
  "DspDelay_Init m =
     m\<lparr>s_delay_buf_l := replicate (length (s_delay_buf_l m)) 0,
       s_delay_buf_r := replicate (length (s_delay_buf_r m)) 0,
       s_delay_l := delay_zero, s_delay_r := delay_zero\<rparr>"

definition DspDelay_SetMix :: "int \<Rightarrow> DelayModule \<Rightarrow> DelayModule" where
  "DspDelay_SetMix mix_q15 m =
     (let v1 = (if mix_q15 < 0 then 0 else mix_q15);
          v2 = (if v1 > 32768 then 32768 else v1)
      in m\<lparr>s_delay_mix_q15 := v2\<rparr>)"

definition DspDelay_GetMix :: "DelayModule \<Rightarrow> int" where
  "DspDelay_GetMix m = s_delay_mix_q15 m"

definition DspDelay_SetFeedback :: "int \<Rightarrow> DelayModule \<Rightarrow> DelayModule" where
  "DspDelay_SetFeedback feedback_q15 m =
     (let v1 = (if feedback_q15 < 0 then 0 else feedback_q15);
          v2 = (if v1 > 32768 then 32768 else v1)
      in m\<lparr>s_delay_feedback_q15 := v2\<rparr>)"

definition DspDelay_GetFeedback :: "DelayModule \<Rightarrow> int" where
  "DspDelay_GetFeedback m = s_delay_feedback_q15 m"

text \<open>
  \<open>DspDelay_Process\<close> on one channel: the first argument is the module's
  \<open>s_delay_feedback_q15\<close>, the buffer and the channel state are the two pointers of the C
  function.  Indexing the array outside its bounds is undefined in C: the model returns
  \<open>None\<close> there.  On the update tick the sample read from the buffer is widened by
  \<open>(int32_t)delay[i] << 8\<close>, that is multiplied by 256.
\<close>

definition DspDelay_Process ::
  "int \<Rightarrow> int \<Rightarrow> int list \<Rightarrow> DelayState \<Rightarrow> (int \<times> int list \<times> DelayState) option" where
  "DspDelay_Process feedback_q15 x delay st =
     (if phase st = 0
      then let i = idx st
           in if unat i < length delay
              then let d = s32 (delay ! unat i * 256);
                       lp = fst (onepole_lpf_s24 d (fb_lp_s24 st) DELAY_FB_LPF_A_Q15);
                       fb = s32 (asr (feedback_q15 * lp) 15);
                       delay' = delay[unat i := s24_to_s16 (clamp_s24 (s32 (x + fb)))];
                       ph = (word_of_nat ((unat (phase st) + 1) mod DELAY_DECIM) :: 8 word)
                   in Some (d, delay',
                            \<lparr>idx = (i + 1) AND DELAY_MASK, phase = ph,
                             last_out_s24 = d, fb_lp_s24 = lp\<rparr>)
              else None
      else Some (last_out_s24 st, delay,
                 st\<lparr>phase := word_of_nat ((unat (phase st) + 1) mod DELAY_DECIM)\<rparr>))"

section \<open>dsp\_reverb\<close>

text \<open>
  The static variables of one reverb channel, which \<open>DspReverb_Process\<close> receives as seven
  pointers: delay line and cursor, damping state, the shared allpass buffer with the cursors
  of its two halves, and the LFO phase.
\<close>

record ReverbChan =
  rv_delay :: "int list"
  rv_delay_idx :: "32 word"
  rv_lp :: int
  rv_ap_buf :: "int list"
  rv_ap1_idx :: "32 word"
  rv_ap2_idx :: "32 word"
  rv_lfo_phase :: "32 word"

record ReverbModule =
  s_reverb_mix_q15 :: int
  s_reverb_feedback_q15 :: int
  s_reverb_damp_q15 :: int
  s_reverb_l :: ReverbChan
  s_reverb_r :: ReverbChan

definition REVERB_DELAY_LEN :: int where "REVERB_DELAY_LEN = 2048"
definition REVERB_DELAY_MASK :: "32 word" where "REVERB_DELAY_MASK = 2047"
definition REVERB_AP1_LEN :: nat where "REVERB_AP1_LEN = 64"
definition REVERB_AP1_MASK :: "32 word" where "REVERB_AP1_MASK = 63"
definition REVERB_AP2_MASK :: "32 word" where "REVERB_AP2_MASK = 63"
definition REVERB_FEEDBACK_Q15 :: int where "REVERB_FEEDBACK_Q15 = 22000"
definition REVERB_DAMP_Q15 :: int where "REVERB_DAMP_Q15 = 8192"
definition REVERB_AP_G_Q15 :: int where "REVERB_AP_G_Q15 = 22938"
definition REVERB_MIX_Q15 :: int where "REVERB_MIX_Q15 = 9830"
definition REVERB_MOD_AMP_SAMPLES :: int where "REVERB_MOD_AMP_SAMPLES = 0"

definition triangle_lfo_offset_q8 :: "32 word \<Rightarrow> 32 word \<Rightarrow> int \<Rightarrow> int \<times> 32 word" where
  "triangle_lfo_offset_q8 ph step amp_samples =
     (let ph' = ph + step;
          t = (ucast (drop_bit 24 ph') :: 8 word);
          tri = (if t < 128 then t else 255 - t);
          off = s32 (uint tri - 64);
          off_q8 = s32 (c_div (s32 (off * s32 (amp_samples * 256))) 64);
          lim = s32 (amp_samples * 256);
          o1 = (if off_q8 > lim then lim else off_q8);
          o2 = (if o1 < s32 (- lim) then s32 (- lim) else o1)
      in (o2, ph'))"

text \<open>
  \<open>allpass_process_s24_len\<close>: \<open>buf\<close> is the whole allpass array and \<open>base\<close> the offset of the
  stage inside it (\<open>&ap_buf[0]\<close>, \<open>&ap_buf[REVERB_AP1_LEN]\<close>).  An index outside the array
  is undefined in C: \<open>None\<close>.
\<close>

definition allpass_process_s24_len ::
  "int \<Rightarrow> int list \<Rightarrow> nat \<Rightarrow> 32 word \<Rightarrow> 32 word \<Rightarrow> (int \<times> int list \<times> 32 word) option" where
  "allpass_process_s24_len x buf base i msk =
     (if base + unat i < length buf
      then let b = buf ! (base + unat i);
               y = s32 (b - s32 (asr (REVERB_AP_G_Q15 * x) 15));
               new_b = s32 (x + s32 (asr (REVERB_AP_G_Q15 * y) 15))
           in Some (clamp_s24 y, buf[base + unat i := clamp_s24 new_b], (i + 1) AND msk)
      else None)"

definition reverb_zero :: "ReverbChan \<Rightarrow> ReverbChan" where
  "reverb_zero c =
     \<lparr>rv_delay = replicate (length (rv_delay c)) 0, rv_delay_idx = 0, rv_lp = 0,
      rv_ap_buf = replicate (length (rv_ap_buf c)) 0, rv_ap1_idx = 0, rv_ap2_idx = 0,
      rv_lfo_phase = 0\<rparr>"

text \<open>\<open>DspReverb_Init\<close> clears the buffers, cursors, damping states and LFO phases of both
  channels; mix, feedback and damping are not assigned.\<close>

definition DspReverb_Init :: "ReverbModule \<Rightarrow> ReverbModule" where
  "DspReverb_Init m =
     m\<lparr>s_reverb_l := reverb_zero (s_reverb_l m), s_reverb_r := reverb_zero (s_reverb_r m)\<rparr>"

definition DspReverb_SetMix :: "int \<Rightarrow> ReverbModule \<Rightarrow> ReverbModule" where
  "DspReverb_SetMix mix_q15 m =
     (let v1 = (if mix_q15 < 0 then 0 else mix_q15);
          v2 = (if v1 > 32768 then 32768 else v1)
      in m\<lparr>s_reverb_mix_q15 := v2\<rparr>)"

definition DspReverb_GetMix :: "ReverbModule \<Rightarrow> int" where
  "DspReverb_GetMix m = s_reverb_mix_q15 m"

definition DspReverb_SetFeedback :: "int \<Rightarrow> ReverbModule \<Rightarrow> ReverbModule" where
  "DspReverb_SetFeedback feedback_q15 m =
     (let v1 = (if feedback_q15 < 0 then 0 else feedback_q15);
          v2 = (if v1 > 32768 then 32768 else v1)
      in m\<lparr>s_reverb_feedback_q15 := v2\<rparr>)"

definition DspReverb_GetFeedback :: "ReverbModule \<Rightarrow> int" where
  "DspReverb_GetFeedback m = s_reverb_feedback_q15 m"

definition DspReverb_SetDamp :: "int \<Rightarrow> ReverbModule \<Rightarrow> ReverbModule" where
  "DspReverb_SetDamp damp_q15 m =
     (let v1 = (if damp_q15 < 0 then 0 else damp_q15);
          v2 = (if v1 > 32768 then 32768 else v1)
      in m\<lparr>s_reverb_damp_q15 := v2\<rparr>)"

definition DspReverb_GetDamp :: "ReverbModule \<Rightarrow> int" where
  "DspReverb_GetDamp m = s_reverb_damp_q15 m"

text \<open>
  The tap read of \<open>DspReverb_Process\<close>: LFO offset, the two neighbouring taps and their
  linear interpolation.  Returns the interpolated tap \<open>d\<close> and the advanced LFO phase.
\<close>

definition reverb_tap :: "int list \<Rightarrow> 32 word \<Rightarrow> 32 word \<Rightarrow> 32 word \<Rightarrow> (int \<times> 32 word) option" where
  "reverb_tap dl i lfo lfo_step =
     (let (mod_q8, lfo') = triangle_lfo_offset_q8 lfo lfo_step REVERB_MOD_AMP_SAMPLES;
          mod_i = asr mod_q8 8;
          frac = mod_q8 AND 255;
          ri0a = s32 (sint i + mod_i);
          ri0 = s32 (ri0a + REVERB_DELAY_LEN) AND 2047;
          ri1 = s32 (ri0 + 1) AND 2047
      in if nat ri0 < length dl \<and> nat ri1 < length dl
         then let d0 = dl ! nat ri0;
                  d1 = dl ! nat ri1
              in Some (s32 (d0 + s32 (asr (s32 (d1 - d0) * frac) 8)), lfo')
         else None)"

text \<open>
  \<open>DspReverb_Process\<close> (and the identical \<open>reverb_process_s24\<close> of the single-file variant).
  The first two arguments are the module's \<open>s_reverb_damp_q15\<close> and
  \<open>s_reverb_feedback_q15\<close>.
\<close>

definition DspReverb_Process ::
  "int \<Rightarrow> int \<Rightarrow> int \<Rightarrow> ReverbChan \<Rightarrow> 32 word \<Rightarrow> (int \<times> ReverbChan) option" where
  "DspReverb_Process damp_q15 feedback_q15 x c lfo_step =
     (let i = rv_delay_idx c
      in case reverb_tap (rv_delay c) i (rv_lfo_phase c) lfo_step of
           None \<Rightarrow> None
         | Some (d, lfo') \<Rightarrow>
             let lpv = s32 (rv_lp c + s32 (asr (damp_q15 * s32 (d - rv_lp c)) 15));
                 fb = s32 (asr (feedback_q15 * lpv) 15)
             in if unat i < length (rv_delay c)
                then let dl' = (rv_delay c)[unat i := clamp_s24 (s32 (x + fb))];
                         i' = (i + 1) AND REVERB_DELAY_MASK
                     in case allpass_process_s24_len d (rv_ap_buf c) 0 (rv_ap1_idx c) REVERB_AP1_MASK of
                          None \<Rightarrow> None
                        | Some (y1, ap', a1') \<Rightarrow>
                            (case allpass_process_s24_len y1 ap' REVERB_AP1_LEN (rv_ap2_idx c) REVERB_AP2_MASK of
                               None \<Rightarrow> None
                             | Some (y2, ap'', a2') \<Rightarrow>
                                 Some (y2, \<lparr>rv_delay = dl', rv_delay_idx = i', rv_lp = lpv,
                                            rv_ap_buf = ap'', rv_ap1_idx = a1', rv_ap2_idx = a2',
                                            rv_lfo_phase = lfo'\<rparr>))
                else None)"

section \<open>app\_dsp: the orchestrator (modular variant, \<open>Src/dsp/app_dsp.c\<close>)\<close>

datatype AppFxMode =
  APP_FX_MODE_BYPASS | APP_FX_MODE_DISTORTION | APP_FX_MODE_REVERB | APP_FX_MODE_DELAY | APP_FX_MODE_ALL

datatype AppDspParamId =
  APP_DSP_PARAM_DIST_DRIVE_Q8 | APP_DSP_PARAM_DELAY_MIX_Q15 | APP_DSP_PARAM_DELAY_FEEDBACK_Q15
  | APP_DSP_PARAM_REVERB_MIX_Q15 | APP_DSP_PARAM_REVERB_FEEDBACK_Q15 | APP_DSP_PARAM_REVERB_DAMP_Q15
  | APP_DSP_PARAM_GAIN_Q15

definition APP_FX_BIT_DISTORTION :: "32 word" where "APP_FX_BIT_DISTORTION = 1"
definition APP_FX_BIT_REVERB :: "32 word" where "APP_FX_BIT_REVERB = 2"
definition APP_FX_BIT_DELAY :: "32 word" where "APP_FX_BIT_DELAY = 4"

definition AUDIO_INPUT_GAIN_Q8 :: int where "AUDIO_INPUT_GAIN_Q8 = 1536"
definition AUDIO_MAKEUP_GAIN_Q8 :: int where "AUDIO_MAKEUP_GAIN_Q8 = 1000"
definition CLEAN_HPF_R_Q15 :: int where "CLEAN_HPF_R_Q15 = 32384"
definition WET_HPF_R_Q15 :: int where "WET_HPF_R_Q15 = 32004"
definition WET_LPF_A_Q15 :: int where "WET_LPF_A_Q15 = 2048"

text \<open>All static variables of the program: those of the orchestrator and the four modules.\<close>

record AppDsp =
  s_mode :: AppFxMode
  s_button_last_ms :: "32 word"
  s_fx_mask :: "32 word"
  s_gain_q15 :: int
  m_filters :: FiltersState
  m_dist :: DistModule
  m_delay :: DelayModule
  m_reverb :: ReverbModule

text \<open>The values the static initialisers give at program start.\<close>

definition boot_state :: AppDsp where
  "boot_state =
     \<lparr>s_mode = APP_FX_MODE_BYPASS, s_button_last_ms = 0, s_fx_mask = 0, s_gain_q15 = 32768,
      m_filters = DspFilters_Init,
      m_dist = \<lparr>s_dist_drive_q8 = 40960, s_dist_l = dist_zero, s_dist_r = dist_zero\<rparr>,
      m_delay = \<lparr>s_delay_mix_q15 = DELAY_MIX_Q15, s_delay_feedback_q15 = DELAY_FEEDBACK_Q15,
                 s_delay_buf_l = replicate DELAY_LEN 0, s_delay_buf_r = replicate DELAY_LEN 0,
                 s_delay_l = delay_zero, s_delay_r = delay_zero\<rparr>,
      m_reverb = \<lparr>s_reverb_mix_q15 = REVERB_MIX_Q15, s_reverb_feedback_q15 = REVERB_FEEDBACK_Q15,
                  s_reverb_damp_q15 = REVERB_DAMP_Q15,
                  s_reverb_l = \<lparr>rv_delay = replicate 2048 0, rv_delay_idx = 0, rv_lp = 0,
                                rv_ap_buf = replicate 128 0, rv_ap1_idx = 0, rv_ap2_idx = 0,
                                rv_lfo_phase = 0\<rparr>,
                  s_reverb_r = \<lparr>rv_delay = replicate 2048 0, rv_delay_idx = 0, rv_lp = 0,
                                rv_ap_buf = replicate 128 0, rv_ap1_idx = 0, rv_ap2_idx = 0,
                                rv_lfo_phase = 0\<rparr>\<rparr>\<rparr>"

definition AppDsp_Init :: "AppDsp \<Rightarrow> AppDsp" where
  "AppDsp_Init s =
     s\<lparr>m_filters := DspFilters_Init,
       m_dist := DspDistortion_Init (m_dist s),
       m_delay := DspDelay_Init (m_delay s),
       m_reverb := DspReverb_Init (m_reverb s),
       s_mode := APP_FX_MODE_BYPASS,
       s_button_last_ms := 0,
       s_fx_mask := 0,
       s_gain_q15 := 32768\<rparr>"

definition AppDsp_OnButtonPress :: "32 word \<Rightarrow> AppDsp \<Rightarrow> AppDsp" where
  "AppDsp_OnButtonPress now_ms s =
     (if now_ms - s_button_last_ms s < 300 then s
      else let md = (case s_mode s of
                       APP_FX_MODE_BYPASS \<Rightarrow> APP_FX_MODE_DISTORTION
                     | APP_FX_MODE_DISTORTION \<Rightarrow> APP_FX_MODE_REVERB
                     | APP_FX_MODE_REVERB \<Rightarrow> APP_FX_MODE_DELAY
                     | APP_FX_MODE_DELAY \<Rightarrow> APP_FX_MODE_ALL
                     | _ \<Rightarrow> APP_FX_MODE_BYPASS);
               mk = (if md = APP_FX_MODE_BYPASS then 0
                     else if md = APP_FX_MODE_DISTORTION then APP_FX_BIT_DISTORTION
                     else if md = APP_FX_MODE_REVERB then APP_FX_BIT_REVERB
                     else if md = APP_FX_MODE_DELAY then APP_FX_BIT_DELAY
                     else if md = APP_FX_MODE_ALL
                       then APP_FX_BIT_DISTORTION OR APP_FX_BIT_REVERB OR APP_FX_BIT_DELAY
                     else s_fx_mask s)
           in s\<lparr>s_button_last_ms := now_ms, s_mode := md, s_fx_mask := mk\<rparr>)"

definition AppDsp_GetMode :: "AppDsp \<Rightarrow> AppFxMode" where
  "AppDsp_GetMode s = s_mode s"

definition AppDsp_SetFxMask :: "32 word \<Rightarrow> AppDsp \<Rightarrow> AppDsp" where
  "AppDsp_SetFxMask mask0 s =
     (let mk = mask0 AND (APP_FX_BIT_DISTORTION OR APP_FX_BIT_REVERB OR APP_FX_BIT_DELAY);
          md = (if mk = 0 then APP_FX_MODE_BYPASS
                else if mk = APP_FX_BIT_DISTORTION then APP_FX_MODE_DISTORTION
                else if mk = APP_FX_BIT_REVERB then APP_FX_MODE_REVERB
                else if mk = APP_FX_BIT_DELAY then APP_FX_MODE_DELAY
                else APP_FX_MODE_ALL)
      in s\<lparr>s_fx_mask := mk, s_mode := md\<rparr>)"

definition AppDsp_GetFxMask :: "AppDsp \<Rightarrow> 32 word" where
  "AppDsp_GetFxMask s = s_fx_mask s"

text \<open>
  \<open>AppDsp_SetParam\<close> and \<open>AppDsp_GetParam\<close>.  The \<open>default\<close> branches of the two switches
  are taken for no value of the enumeration.
\<close>

definition AppDsp_SetParam :: "AppDspParamId \<Rightarrow> int \<Rightarrow> AppDsp \<Rightarrow> AppDsp" where
  "AppDsp_SetParam pid v s =
     (case pid of
        APP_DSP_PARAM_DIST_DRIVE_Q8 \<Rightarrow> s\<lparr>m_dist := DspDistortion_SetDrive v (m_dist s)\<rparr>
      | APP_DSP_PARAM_DELAY_MIX_Q15 \<Rightarrow> s\<lparr>m_delay := DspDelay_SetMix v (m_delay s)\<rparr>
      | APP_DSP_PARAM_DELAY_FEEDBACK_Q15 \<Rightarrow> s\<lparr>m_delay := DspDelay_SetFeedback v (m_delay s)\<rparr>
      | APP_DSP_PARAM_REVERB_MIX_Q15 \<Rightarrow> s\<lparr>m_reverb := DspReverb_SetMix v (m_reverb s)\<rparr>
      | APP_DSP_PARAM_REVERB_FEEDBACK_Q15 \<Rightarrow> s\<lparr>m_reverb := DspReverb_SetFeedback v (m_reverb s)\<rparr>
      | APP_DSP_PARAM_REVERB_DAMP_Q15 \<Rightarrow> s\<lparr>m_reverb := DspReverb_SetDamp v (m_reverb s)\<rparr>
      | APP_DSP_PARAM_GAIN_Q15 \<Rightarrow>
          (let v1 = (if v < 0 then 0 else v);
               v2 = (if v1 > 65536 then 65536 else v1)
           in s\<lparr>s_gain_q15 := v2\<rparr>))"

definition AppDsp_GetParam :: "AppDspParamId \<Rightarrow> AppDsp \<Rightarrow> int" where
  "AppDsp_GetParam pid s =
     (case pid of
        APP_DSP_PARAM_DIST_DRIVE_Q8 \<Rightarrow> DspDistortion_GetDrive (m_dist s)
      | APP_DSP_PARAM_DELAY_MIX_Q15 \<Rightarrow> DspDelay_GetMix (m_delay s)
      | APP_DSP_PARAM_DELAY_FEEDBACK_Q15 \<Rightarrow> DspDelay_GetFeedback (m_delay s)
      | APP_DSP_PARAM_REVERB_MIX_Q15 \<Rightarrow> DspReverb_GetMix (m_reverb s)
      | APP_DSP_PARAM_REVERB_FEEDBACK_Q15 \<Rightarrow> DspReverb_GetFeedback (m_reverb s)
      | APP_DSP_PARAM_REVERB_DAMP_Q15 \<Rightarrow> DspReverb_GetDamp (m_reverb s)
      | APP_DSP_PARAM_GAIN_Q15 \<Rightarrow> s_gain_q15 s)"

section \<open>app\_dsp: one stereo frame\<close>

definition DspFilters_CompressStereo :: "FiltersState \<Rightarrow> int \<Rightarrow> int \<Rightarrow> (int \<times> int) \<times> FiltersState" where
  "DspFilters_CompressStereo fs l r =
     (let (l', cl) = DspFilters_CompressOne (s_comp_l fs) l;
          (r', cr) = DspFilters_CompressOne (s_comp_r fs) r
      in ((l', r'), fs\<lparr>s_comp_l := cl, s_comp_r := cr\<rparr>))"

text \<open>
  \<open>AppDsp_ProcessFrame\<close> is modelled block by block, in the order of the source.
  Pre-processing: DC blocker, clean high-pass, input gain, compressor.
\<close>

definition frame_pre :: "FiltersState \<Rightarrow> int \<Rightarrow> int \<Rightarrow> (int \<times> int) \<times> FiltersState" where
  "frame_pre fs l0 r0 =
     (let (l1, dl) = DspFilters_DcBlock (s_dc_l fs) l0;
          (r1, dr) = DspFilters_DcBlock (s_dc_r fs) r0;
          (l2, hl) = DspFilters_Hpf1 (s_clean_hpf_l fs) l1 CLEAN_HPF_R_Q15;
          (r2, hr) = DspFilters_Hpf1 (s_clean_hpf_r fs) r1 CLEAN_HPF_R_Q15;
          l3 = gain_s32_q8 l2 AUDIO_INPUT_GAIN_Q8;
          r3 = gain_s32_q8 r2 AUDIO_INPUT_GAIN_Q8
      in DspFilters_CompressStereo
           (fs\<lparr>s_dc_l := dl, s_dc_r := dr, s_clean_hpf_l := hl, s_clean_hpf_r := hr\<rparr>) l3 r3)"

text \<open>The distortion block with the cabinet simulation.\<close>

definition frame_dist :: "AppDsp \<Rightarrow> int \<Rightarrow> int \<Rightarrow> (int \<times> int) \<times> AppDsp" where
  "frame_dist s l r =
     (let dm = m_dist s;
          fs = m_filters s;
          (l1, sl) = DspDistortion_Process (s_dist_drive_q8 dm) (s_dist_l dm) (clamp_s24 l);
          (r1, sr) = DspDistortion_Process (s_dist_drive_q8 dm) (s_dist_r dm) (clamp_s24 r);
          (l2, cl) = DspFilters_CabSim (s_cab_l fs) l1;
          (r2, cr) = DspFilters_CabSim (s_cab_r fs) r1
      in ((l2, r2), s\<lparr>m_dist := dm\<lparr>s_dist_l := sl, s_dist_r := sr\<rparr>,
                      m_filters := fs\<lparr>s_cab_l := cl, s_cab_r := cr\<rparr>\<rparr>))"

text \<open>The delay block: effect, wet high-pass, wet low-pass, dry/wet mix.\<close>

definition frame_delay :: "nat \<Rightarrow> AppDsp \<Rightarrow> int \<Rightarrow> int \<Rightarrow> ((int \<times> int) \<times> AppDsp) option" where
  "frame_delay fx_count s l r =
     (let dm = m_delay s;
          fs = m_filters s
      in case DspDelay_Process (s_delay_feedback_q15 dm) (clamp_s24 l) (s_delay_buf_l dm) (s_delay_l dm) of
           None \<Rightarrow> None
         | Some (wl0, bl, stl) \<Rightarrow>
             (case DspDelay_Process (s_delay_feedback_q15 dm) (clamp_s24 r) (s_delay_buf_r dm) (s_delay_r dm) of
                None \<Rightarrow> None
              | Some (wr0, br, str) \<Rightarrow>
                  let (wl1, hl) = DspFilters_Hpf1 (s_wet_hpf_delay_l fs) wl0 WET_HPF_R_Q15;
                      (wr1, hr) = DspFilters_Hpf1 (s_wet_hpf_delay_r fs) wr0 WET_HPF_R_Q15;
                      (wl2, pl) = DspFilters_OnePole wl1 (s_wet_lpf_delay_l fs) WET_LPF_A_Q15;
                      (wr2, pr) = DspFilters_OnePole wr1 (s_wet_lpf_delay_r fs) WET_LPF_A_Q15;
                      mix0 = DspDelay_GetMix dm;
                      mix = (if fx_count > 1 then s32 (c_div (s32 (mix0 * 3)) 4) else mix0)
                  in Some ((mix_s24 (clamp_s24 l) wl2 mix, mix_s24 (clamp_s24 r) wr2 mix),
                           s\<lparr>m_delay := dm\<lparr>s_delay_buf_l := bl, s_delay_buf_r := br,
                                           s_delay_l := stl, s_delay_r := str\<rparr>,
                             m_filters := fs\<lparr>s_wet_hpf_delay_l := hl, s_wet_hpf_delay_r := hr,
                                             s_wet_lpf_delay_l := pl, s_wet_lpf_delay_r := pr\<rparr>\<rparr>)))"

text \<open>The reverb block: effect (LFO steps 65536 and 77824), wet high-pass, wet low-pass, mix.\<close>

definition frame_reverb :: "nat \<Rightarrow> AppDsp \<Rightarrow> int \<Rightarrow> int \<Rightarrow> ((int \<times> int) \<times> AppDsp) option" where
  "frame_reverb fx_count s l r =
     (let rm = m_reverb s;
          fs = m_filters s
      in case DspReverb_Process (s_reverb_damp_q15 rm) (s_reverb_feedback_q15 rm)
                (clamp_s24 l) (s_reverb_l rm) 65536 of
           None \<Rightarrow> None
         | Some (wl0, cl) \<Rightarrow>
             (case DspReverb_Process (s_reverb_damp_q15 rm) (s_reverb_feedback_q15 rm)
                     (clamp_s24 r) (s_reverb_r rm) 77824 of
                None \<Rightarrow> None
              | Some (wr0, cr) \<Rightarrow>
                  let (wl1, hl) = DspFilters_Hpf1 (s_wet_hpf_reverb_l fs) wl0 WET_HPF_R_Q15;
                      (wr1, hr) = DspFilters_Hpf1 (s_wet_hpf_reverb_r fs) wr0 WET_HPF_R_Q15;
                      (wl2, pl) = DspFilters_OnePole wl1 (s_wet_lpf_reverb_l fs) WET_LPF_A_Q15;
                      (wr2, pr) = DspFilters_OnePole wr1 (s_wet_lpf_reverb_r fs) WET_LPF_A_Q15;
                      mix = (if fx_count > 1 then c_div (DspReverb_GetMix rm) 2 else DspReverb_GetMix rm)
                  in Some ((mix_s24 (clamp_s24 l) wl2 mix, mix_s24 (clamp_s24 r) wr2 mix),
                           s\<lparr>m_reverb := rm\<lparr>s_reverb_l := cl, s_reverb_r := cr\<rparr>,
                             m_filters := fs\<lparr>s_wet_hpf_reverb_l := hl, s_wet_hpf_reverb_r := hr,
                                             s_wet_lpf_reverb_l := pl, s_wet_lpf_reverb_r := pr\<rparr>\<rparr>)))"

text \<open>Post-processing: makeup gain, master volume, limiter, final clamp.\<close>

definition frame_post :: "AppDsp \<Rightarrow> int \<Rightarrow> int \<Rightarrow> (int \<times> int) \<times> AppDsp" where
  "frame_post s l r =
     (let makeup_q8 = (if s_fx_mask s \<noteq> 0 then s32 (c_div (s32 (AUDIO_MAKEUP_GAIN_Q8 * 3)) 4)
                       else AUDIO_MAKEUP_GAIN_Q8);
          l1 = gain_s32_q8 l makeup_q8;
          r1 = gain_s32_q8 r makeup_q8;
          l2 = clamp_s24 (s32 (asr (l1 * s_gain_q15 s) 15));
          r2 = clamp_s24 (s32 (asr (r1 * s_gain_q15 s) 15));
          ((l3, r3), lim) = DspFilters_Limiter (s_limiter (m_filters s)) l2 r2
      in ((clamp_s24 l3, clamp_s24 r3), s\<lparr>m_filters := (m_filters s)\<lparr>s_limiter := lim\<rparr>\<rparr>))"

definition AppDsp_ProcessFrame :: "AppDsp \<Rightarrow> int \<Rightarrow> int \<Rightarrow> ((int \<times> int) \<times> AppDsp) option" where
  "AppDsp_ProcessFrame s l_s24 r_s24 =
     (let msk = s_fx_mask s;
          has_dist = (msk AND APP_FX_BIT_DISTORTION \<noteq> 0);
          has_rev = (msk AND APP_FX_BIT_REVERB \<noteq> 0);
          has_del = (msk AND APP_FX_BIT_DELAY \<noteq> 0);
          fx_count = (if has_dist then 1 else 0) + (if has_rev then 1 else 0)
                     + (if has_del then 1 else (0::nat));
          ((l1, r1), fs1) = frame_pre (m_filters s) l_s24 r_s24;
          s1 = s\<lparr>m_filters := fs1\<rparr>;
          ((l2, r2), s2) = (if has_dist then frame_dist s1 l1 r1 else ((l1, r1), s1))
      in case (if has_del then frame_delay fx_count s2 l2 r2 else Some ((l2, r2), s2)) of
           None \<Rightarrow> None
         | Some ((l3, r3), s3) \<Rightarrow>
             (case (if has_rev then frame_reverb fx_count s3 l3 r3 else Some ((l3, r3), s3)) of
                None \<Rightarrow> None
              | Some ((l4, r4), s4) \<Rightarrow> Some (frame_post s4 l4 r4)))"

text \<open>Feeding a list of frames, one call of \<open>AppDsp_ProcessFrame\<close> each; the outputs in order.\<close>

fun process_frames :: "AppDsp \<Rightarrow> (int \<times> int) list \<Rightarrow> ((int \<times> int) list \<times> AppDsp) option" where
  "process_frames s [] = Some ([], s)"
| "process_frames s ((l, r) # fr) =
     (case AppDsp_ProcessFrame s l r of
        None \<Rightarrow> None
      | Some (out, s') \<Rightarrow>
          (case process_frames s' fr of
             None \<Rightarrow> None
           | Some (outs, s'') \<Rightarrow> Some (out # outs, s'')))"

section \<open>app\_dsp: the single-file variant (\<open>Src/app_dsp.c\<close>)\<close>

text \<open>
  The older single-file orchestrator holds the same static variables and, as static
  functions, the same filters and effects, word for word.  Its \<open>AppDsp_ProcessFrame\<close> differs
  from the modular one in two places: an input coloration stage follows the compressor, and
  with two or more effects the reverb is mixed with the fixed \<open>s_reverb_mix_all_q15\<close> (4915,
  never assigned) instead of half the reverb mix.  Its \<open>AppDsp_Init\<close> assigns no parameter,
  not even the master gain.
\<close>

definition INPUT_COLOR_DRIVE_Q8 :: int where "INPUT_COLOR_DRIVE_Q8 = 384"
definition REVERB_MIX_ALL_Q15 :: int where "REVERB_MIX_ALL_Q15 = 4915"

definition q15_mul :: "int \<Rightarrow> int \<Rightarrow> int" where
  "q15_mul a b = s32 (asr (a * b) 15)"

definition softclip_q15 :: "int \<Rightarrow> int" where
  "softclip_q15 xq15 =
     (let x2 = q15_mul xq15 xq15;
          x3 = q15_mul x2 xq15
      in s32 (xq15 - c_div x3 3))"

definition input_color_process_s24 :: "int \<Rightarrow> int" where
  "input_color_process_s24 x =
     (let y = clamp_s24 (gain_s32_q8 x INPUT_COLOR_DRIVE_Q8);
          yq15 = softclip_q15 (asr y 8)
      in clamp_s24 (s32 (yq15 * 256)))"

definition AppDsp_Init_mono :: "AppDsp \<Rightarrow> AppDsp" where
  "AppDsp_Init_mono s =
     s\<lparr>s_mode := APP_FX_MODE_BYPASS,
       s_button_last_ms := 0,
       s_fx_mask := 0,
       m_dist := (m_dist s)\<lparr>s_dist_l := dist_zero, s_dist_r := dist_zero\<rparr>,
       m_reverb := (m_reverb s)\<lparr>s_reverb_l := reverb_zero (s_reverb_l (m_reverb s)),
                                 s_reverb_r := reverb_zero (s_reverb_r (m_reverb s))\<rparr>,
       m_delay := (m_delay s)\<lparr>s_delay_buf_l := replicate (length (s_delay_buf_l (m_delay s))) 0,
                               s_delay_buf_r := replicate (length (s_delay_buf_r (m_delay s))) 0,
                               s_delay_l := delay_zero, s_delay_r := delay_zero\<rparr>,
       m_filters :=
         \<lparr>s_limiter = \<lparr>lim_gain_q15 = 32768\<rparr>,
          s_dc_l = dc_zero, s_dc_r = dc_zero,
          s_clean_hpf_l = dc_zero, s_clean_hpf_r = dc_zero,
          s_wet_hpf_delay_l = dc_zero, s_wet_hpf_delay_r = dc_zero,
          s_wet_hpf_reverb_l = dc_zero, s_wet_hpf_reverb_r = dc_zero,
          s_comp_l = comp_unity, s_comp_r = comp_unity,
          s_cab_l = biquad_zero, s_cab_r = biquad_zero,
          s_wet_lpf_delay_l = 0, s_wet_lpf_delay_r = 0,
          s_wet_lpf_reverb_l = 0, s_wet_lpf_reverb_r = 0\<rparr>\<rparr>"

definition frame_reverb_mono :: "nat \<Rightarrow> AppDsp \<Rightarrow> int \<Rightarrow> int \<Rightarrow> ((int \<times> int) \<times> AppDsp) option" where
  "frame_reverb_mono fx_count s l r =
     (let rm = m_reverb s;
          fs = m_filters s
      in case DspReverb_Process (s_reverb_damp_q15 rm) (s_reverb_feedback_q15 rm)
                (clamp_s24 l) (s_reverb_l rm) 65536 of
           None \<Rightarrow> None
         | Some (wl0, cl) \<Rightarrow>
             (case DspReverb_Process (s_reverb_damp_q15 rm) (s_reverb_feedback_q15 rm)
                     (clamp_s24 r) (s_reverb_r rm) 77824 of
                None \<Rightarrow> None
              | Some (wr0, cr) \<Rightarrow>
                  let (wl1, hl) = DspFilters_Hpf1 (s_wet_hpf_reverb_l fs) wl0 WET_HPF_R_Q15;
                      (wr1, hr) = DspFilters_Hpf1 (s_wet_hpf_reverb_r fs) wr0 WET_HPF_R_Q15;
                      (wl2, pl) = DspFilters_OnePole wl1 (s_wet_lpf_reverb_l fs) WET_LPF_A_Q15;
                      (wr2, pr) = DspFilters_OnePole wr1 (s_wet_lpf_reverb_r fs) WET_LPF_A_Q15;
                      mix = (if fx_count > 1 then REVERB_MIX_ALL_Q15 else s_reverb_mix_q15 rm)
                  in Some ((mix_s24 (clamp_s24 l) wl2 mix, mix_s24 (clamp_s24 r) wr2 mix),
                           s\<lparr>m_reverb := rm\<lparr>s_reverb_l := cl, s_reverb_r := cr\<rparr>,
                             m_filters := fs\<lparr>s_wet_hpf_reverb_l := hl, s_wet_hpf_reverb_r := hr,
                                             s_wet_lpf_reverb_l := pl, s_wet_lpf_reverb_r := pr\<rparr>\<rparr>)))"

definition AppDsp_ProcessFrame_mono :: "AppDsp \<Rightarrow> int \<Rightarrow> int \<Rightarrow> ((int \<times> int) \<times> AppDsp) option" where
  "AppDsp_ProcessFrame_mono s l_s24 r_s24 =
     (let msk = s_fx_mask s;
          has_dist = (msk AND APP_FX_BIT_DISTORTION \<noteq> 0);
          has_rev = (msk AND APP_FX_BIT_REVERB \<noteq> 0);
          has_del = (msk AND APP_FX_BIT_DELAY \<noteq> 0);
          fx_count = (if has_dist then 1 else 0) + (if has_rev then 1 else 0)
                     + (if has_del then 1 else (0::nat));
          ((l0, r0), fs1) = frame_pre (m_filters s) l_s24 r_s24;
          l1 = input_color_process_s24 l0;
          r1 = input_color_process_s24 r0;
          s1 = s\<lparr>m_filters := fs1\<rparr>;
          ((l2, r2), s2) = (if has_dist then frame_dist s1 l1 r1 else ((l1, r1), s1))
      in case (if has_del then frame_delay fx_count s2 l2 r2 else Some ((l2, r2), s2)) of
           None \<Rightarrow> None
         | Some ((l3, r3), s3) \<Rightarrow>
             (case (if has_rev then frame_reverb_mono fx_count s3 l3 r3 else Some ((l3, r3), s3)) of
                None \<Rightarrow> None
              | Some ((l4, r4), s4) \<Rightarrow> Some (frame_post s4 l4 r4)))"

text \<open>Feeding a list of frames to the single-file variant.\<close>

fun process_frames_mono :: "AppDsp \<Rightarrow> (int \<times> int) list \<Rightarrow> ((int \<times> int) list \<times> AppDsp) option" where
  "process_frames_mono s [] = Some ([], s)"
| "process_frames_mono s ((l, r) # fr) =
     (case AppDsp_ProcessFrame_mono s l r of
        None \<Rightarrow> None
      | Some (out, s') \<Rightarrow>
          (case process_frames_mono s' fr of
             None \<Rightarrow> None
           | Some (outs, s'') \<Rightarrow> Some (out # outs, s'')))"

section \<open>Notions used to state the properties\<close>

text \<open>The documented upper bound of each parameter; the lower bound is 0 for all of them.\<close>

definition param_max :: "AppDspParamId \<Rightarrow> int" where
  "param_max pid =
     (case pid of
        APP_DSP_PARAM_DIST_DRIVE_Q8 \<Rightarrow> 131072
      | APP_DSP_PARAM_GAIN_Q15 \<Rightarrow> 65536
      | _ \<Rightarrow> 32768)"

text \<open>The exact mask of a legacy mode, and the successor of a mode in the button cycle.\<close>

definition mask_for_mode :: "AppFxMode \<Rightarrow> 32 word" where
  "mask_for_mode md =
     (case md of
        APP_FX_MODE_BYPASS \<Rightarrow> 0
      | APP_FX_MODE_DISTORTION \<Rightarrow> 1
      | APP_FX_MODE_REVERB \<Rightarrow> 2
      | APP_FX_MODE_DELAY \<Rightarrow> 4
      | APP_FX_MODE_ALL \<Rightarrow> 7)"

definition next_mode :: "AppFxMode \<Rightarrow> AppFxMode" where
  "next_mode md =
     (case md of
        APP_FX_MODE_BYPASS \<Rightarrow> APP_FX_MODE_DISTORTION
      | APP_FX_MODE_DISTORTION \<Rightarrow> APP_FX_MODE_REVERB
      | APP_FX_MODE_REVERB \<Rightarrow> APP_FX_MODE_DELAY
      | APP_FX_MODE_DELAY \<Rightarrow> APP_FX_MODE_ALL
      | APP_FX_MODE_ALL \<Rightarrow> APP_FX_MODE_BYPASS)"

text \<open>How many of the three effect bits a mask has.\<close>

definition fx_bits_set :: "32 word \<Rightarrow> nat" where
  "fx_bits_set m =
     (if m AND APP_FX_BIT_DISTORTION \<noteq> 0 then 1 else 0)
     + (if m AND APP_FX_BIT_REVERB \<noteq> 0 then 1 else 0)
     + (if m AND APP_FX_BIT_DELAY \<noteq> 0 then 1 else 0)"

text \<open>
  The limiter in the words of its description: the stereo-linked peak, the target gain
  (threshold over peak in Q15 above the threshold, unity otherwise), and the gain update
  (instant attack, release by 16/32768 of the remaining distance per call).
\<close>

definition limiter_peak :: "int \<Rightarrow> int \<Rightarrow> int" where
  "limiter_peak l r = max \<bar>l\<bar> \<bar>r\<bar>"

definition limiter_target :: "int \<Rightarrow> int" where
  "limiter_target peak = (if peak > 6500000 then (6500000 * 32768) div peak else 32768)"

definition limiter_gain :: "int \<Rightarrow> int \<Rightarrow> int" where
  "limiter_gain g target =
     (if target < g then target else min 32768 (g + (16 * (target - g)) div 32768))"

text \<open>The limiter called on a list of frames, one call each; the outputs in order.\<close>

fun limiter_run :: "LimiterState \<Rightarrow> (int \<times> int) list \<Rightarrow> (int \<times> int) list \<times> LimiterState" where
  "limiter_run st [] = ([], st)"
| "limiter_run st ((l, r) # fr) =
     (let (out, st') = DspFilters_Limiter st l r;
          (outs, st'') = limiter_run st' fr
      in (out # outs, st''))"

text \<open>
  The range of a stored delay sample (\<open>int16_t\<close>), and what \<open>DspDelay_Process\<close> relies on
  and maintains: the buffer has its 1024 entries, the cursor is inside it, the phase is
  below the decimation factor, the entries are 16-bit values and the held output and the
  feedback low-pass state are samples.
\<close>

definition in_s16 :: "int \<Rightarrow> bool" where
  "in_s16 x = (- 32768 \<le> x \<and> x \<le> 32767)"

definition delay_wf :: "int list \<Rightarrow> DelayState \<Rightarrow> bool" where
  "delay_wf buf st =
     (length buf = DELAY_LEN \<and> unat (idx st) < DELAY_LEN \<and> unat (phase st) < DELAY_DECIM
      \<and> list_all in_s16 buf \<and> in_s24 (last_out_s24 st) \<and> in_s24 (fb_lp_s24 st))"

text \<open>One channel of the delay fed a list of samples, one call each; the outputs in order.\<close>

fun delay_run :: "int \<Rightarrow> int list \<Rightarrow> DelayState \<Rightarrow> int list \<Rightarrow> (int list \<times> int list \<times> DelayState) option" where
  "delay_run feedback_q15 buf st [] = Some ([], buf, st)"
| "delay_run feedback_q15 buf st (x # xs) =
     (case DspDelay_Process feedback_q15 x buf st of
        None \<Rightarrow> None
      | Some (y, buf', st') \<Rightarrow>
          (case delay_run feedback_q15 buf' st' xs of
             None \<Rightarrow> None
           | Some (ys, buf'', st'') \<Rightarrow> Some (y # ys, buf'', st'')))"

text \<open>
  What \<open>DspReverb_Process\<close> relies on and maintains for one channel: the delay line has
  its 2048 entries and the allpass buffer its 128, the three cursors are inside their
  regions, and all stored values are samples.
\<close>

definition reverb_wf :: "ReverbChan \<Rightarrow> bool" where
  "reverb_wf c =
     (length (rv_delay c) = 2048 \<and> length (rv_ap_buf c) = 128
      \<and> unat (rv_delay_idx c) < 2048 \<and> unat (rv_ap1_idx c) < 64 \<and> unat (rv_ap2_idx c) < 64
      \<and> list_all in_s24 (rv_delay c) \<and> list_all in_s24 (rv_ap_buf c))"

text \<open>One channel of the reverb fed a list of samples, one call each; the outputs in order.\<close>

fun reverb_run ::
  "int \<Rightarrow> int \<Rightarrow> ReverbChan \<Rightarrow> 32 word \<Rightarrow> int list \<Rightarrow> (int list \<times> ReverbChan) option" where
  "reverb_run damp_q15 feedback_q15 c lfo_step [] = Some ([], c)"
| "reverb_run damp_q15 feedback_q15 c lfo_step (x # xs) =
     (case DspReverb_Process damp_q15 feedback_q15 x c lfo_step of
        None \<Rightarrow> None
      | Some (y, c') \<Rightarrow>
          (case reverb_run damp_q15 feedback_q15 c' lfo_step xs of
             None \<Rightarrow> None
           | Some (ys, c'') \<Rightarrow> Some (y # ys, c'')))"

text \<open>
  One allpass stage for input \<open>x\<close> and the value \<open>b\<close> read from its buffer: the output
  and the value stored back, and the damping low-pass of the feedback path, all as
  \<open>DspReverb_Process\<close> computes them.
\<close>

definition allpass_out :: "int \<Rightarrow> int \<Rightarrow> int" where
  "allpass_out x b = clamp_s24 (s32 (b - s32 (asr (REVERB_AP_G_Q15 * x) 15)))"

definition allpass_store :: "int \<Rightarrow> int \<Rightarrow> int" where
  "allpass_store x b =
     clamp_s24 (s32 (x + s32 (asr (REVERB_AP_G_Q15 * s32 (b - s32 (asr (REVERB_AP_G_Q15 * x) 15))) 15)))"

definition reverb_damp :: "int \<Rightarrow> int \<Rightarrow> int \<Rightarrow> int" where
  "reverb_damp damp_q15 lp0 d = s32 (lp0 + s32 (asr (damp_q15 * s32 (d - lp0)) 15))"

text \<open>
  The wet output as the specification words it: the damped tap, not the raw one, passed
  through the two allpass stages.  Used only to compare with the code.
\<close>

definition reverb_wet_of_damped_tap :: "int \<Rightarrow> ReverbChan \<Rightarrow> int" where
  "reverb_wet_of_damped_tap damp_q15 c =
     (let d = rv_delay c ! unat (rv_delay_idx c);
          lpv = reverb_damp damp_q15 (rv_lp c) d
      in allpass_out (allpass_out lpv (rv_ap_buf c ! unat (rv_ap1_idx c)))
           (rv_ap_buf c ! (64 + unat (rv_ap2_idx c))))"


text \<open>A channel as initialisation leaves it, except for the value 1000 under the cursor.\<close>

definition reverb_example :: ReverbChan where
  "reverb_example =
     \<lparr>rv_delay = (replicate 2048 0)[0 := 1000], rv_delay_idx = 0, rv_lp = 0,
      rv_ap_buf = replicate 128 0, rv_ap1_idx = 0, rv_ap2_idx = 0, rv_lfo_phase = 0\<rparr>"

text \<open>
  A state from which silence stays silence: no effect enabled and the DC blockers and clean
  high-pass filters at rest.
\<close>

definition quiet :: "AppDsp \<Rightarrow> bool" where
  "quiet s =
     (s_fx_mask s = 0
      \<and> s_dc_l (m_filters s) = dc_zero \<and> s_dc_r (m_filters s) = dc_zero
      \<and> s_clean_hpf_l (m_filters s) = dc_zero \<and> s_clean_hpf_r (m_filters s) = dc_zero)"

section \<open>Auxiliary facts\<close>

lemmas param_access_defs =
  AppDsp_GetParam_def AppDsp_SetParam_def
  DspDistortion_SetDrive_def DspDistortion_GetDrive_def
  DspDelay_SetMix_def DspDelay_GetMix_def DspDelay_SetFeedback_def DspDelay_GetFeedback_def
  DspReverb_SetMix_def DspReverb_GetMix_def DspReverb_SetFeedback_def DspReverb_GetFeedback_def
  DspReverb_SetDamp_def DspReverb_GetDamp_def

lemmas fx_bit_defs = APP_FX_BIT_DISTORTION_def APP_FX_BIT_REVERB_def APP_FX_BIT_DELAY_def

lemma word_le7_cases:
  fixes x :: "32 word"
  assumes "x \<le> 7"
  shows "x = 0 \<or> x = 1 \<or> x = 2 \<or> x = 3 \<or> x = 4 \<or> x = 5 \<or> x = 6 \<or> x = 7"
proof -
  have *: "word_of_nat (unat x) = x" by simp
  from assms have "unat x \<le> 7" by (simp add: word_le_nat_alt)
  then have "unat x = 0 \<or> unat x = 1 \<or> unat x = 2 \<or> unat x = 3
      \<or> unat x = 4 \<or> unat x = 5 \<or> unat x = 6 \<or> unat x = 7"
    by arith
  then show ?thesis
    by (elim disjE) (use * in auto)
qed

lemma and7_cases:
  fixes m :: "32 word"
  shows "m AND 7 = 0 \<or> m AND 7 = 1 \<or> m AND 7 = 2 \<or> m AND 7 = 3
      \<or> m AND 7 = 4 \<or> m AND 7 = 5 \<or> m AND 7 = 6 \<or> m AND 7 = 7"
  by (rule word_le7_cases) (rule word_and_le1)

lemma button_rejected:
  "now_ms - s_button_last_ms s < 300 \<Longrightarrow> AppDsp_OnButtonPress now_ms s = s"
  by (simp add: AppDsp_OnButtonPress_def)

lemma button_accepted:
  "\<not> now_ms - s_button_last_ms s < 300 \<Longrightarrow>
   AppDsp_OnButtonPress now_ms s =
     s\<lparr>s_button_last_ms := now_ms, s_mode := next_mode (s_mode s),
       s_fx_mask := mask_for_mode (next_mode (s_mode s))\<rparr>"
  by (cases "s_mode s")
     (simp_all add: AppDsp_OnButtonPress_def Let_def next_mode_def mask_for_mode_def fx_bit_defs)

section \<open>Parameters\<close>

text \<open>
  C4.  For each of the seven parameter identifiers and every value \<open>v\<close>, setting the
  parameter and reading it back returns \<open>v\<close> clamped into \<open>[0, param_max]\<close>
  (131072 for the drive, 65536 for the master gain, 32768 for the five others): a value
  outside the range is stored clamped, never refused.
\<close>

theorem C4_set_get_clamped:
  "AppDsp_GetParam pid (AppDsp_SetParam pid v s) = max 0 (min (param_max pid) v)"
  by (cases pid) (simp_all add: param_access_defs param_max_def Let_def)

theorem C4_set_get_clamped_witness:
  "AppDsp_GetParam APP_DSP_PARAM_DIST_DRIVE_Q8
     (AppDsp_SetParam APP_DSP_PARAM_DIST_DRIVE_Q8 200000 boot_state) = 131072
   \<and> AppDsp_GetParam APP_DSP_PARAM_GAIN_Q15
     (AppDsp_SetParam APP_DSP_PARAM_GAIN_Q15 (- 5) boot_state) = 0
   \<and> AppDsp_GetParam APP_DSP_PARAM_REVERB_DAMP_Q15
     (AppDsp_SetParam APP_DSP_PARAM_REVERB_DAMP_Q15 1234 boot_state) = 1234"
  using C4_set_get_clamped [of APP_DSP_PARAM_DIST_DRIVE_Q8 200000 boot_state]
    C4_set_get_clamped [of APP_DSP_PARAM_GAIN_Q15 "- 5" boot_state]
    C4_set_get_clamped [of APP_DSP_PARAM_REVERB_DAMP_Q15 1234 boot_state]
  by (simp add: param_max_def)

section \<open>Effect mask and legacy mode\<close>

text \<open>
  C9.  \<open>AppDsp_SetFxMask m\<close> keeps only the three effect bits of \<open>m\<close>: the mask read back
  is \<open>m AND 7\<close>, whatever the other bits of \<open>m\<close> are.  The mode is recomputed from the
  kept bits: bypass for none, the effect's own mode for exactly one, and \<open>ALL\<close> exactly when
  two or more of the three bits are set.
\<close>

theorem C9_mask_sanitized:
  "AppDsp_GetFxMask (AppDsp_SetFxMask m s) = m AND 7
   \<and> AppDsp_GetMode (AppDsp_SetFxMask m s) =
       (if m AND 7 = 0 then APP_FX_MODE_BYPASS
        else if m AND 7 = 1 then APP_FX_MODE_DISTORTION
        else if m AND 7 = 2 then APP_FX_MODE_REVERB
        else if m AND 7 = 4 then APP_FX_MODE_DELAY
        else APP_FX_MODE_ALL)
   \<and> (if 2 \<le> fx_bits_set (m AND 7)
       then AppDsp_GetMode (AppDsp_SetFxMask m s) = APP_FX_MODE_ALL
       else AppDsp_GetMode (AppDsp_SetFxMask m s) \<noteq> APP_FX_MODE_ALL)"
  using and7_cases [of m]
  by (elim disjE)
     (simp_all add: AppDsp_GetFxMask_def AppDsp_SetFxMask_def AppDsp_GetMode_def Let_def
        fx_bit_defs fx_bits_set_def)

theorem C9_mask_sanitized_witness:
  "AppDsp_GetFxMask (AppDsp_SetFxMask 4294967293 boot_state) = 5
   \<and> AppDsp_GetMode (AppDsp_SetFxMask 4294967293 boot_state) = APP_FX_MODE_ALL
   \<and> AppDsp_GetFxMask (AppDsp_SetFxMask 10 boot_state) = 2
   \<and> AppDsp_GetMode (AppDsp_SetFxMask 10 boot_state) = APP_FX_MODE_REVERB"
  using C9_mask_sanitized [of 4294967293 boot_state] C9_mask_sanitized [of 10 boot_state]
  by (simp add: fx_bits_set_def fx_bit_defs)

section \<open>Button debounce and mode cycle\<close>

text \<open>
  C10.  \<open>AppDsp_Init\<close> stores 0 as the timestamp of the last accepted press.  Hence a press
  right after initialisation with a timestamp \<open>t < 300\<close> is debounced away: the whole state,
  in particular mode and mask, is left as initialisation made it (bypass, empty mask).
\<close>

theorem C10_first_press_debounced:
  "s_button_last_ms (AppDsp_Init s) = 0
   \<and> (t < 300 \<longrightarrow>
        AppDsp_OnButtonPress t (AppDsp_Init s) = AppDsp_Init s
        \<and> AppDsp_GetMode (AppDsp_OnButtonPress t (AppDsp_Init s)) = APP_FX_MODE_BYPASS
        \<and> AppDsp_GetFxMask (AppDsp_OnButtonPress t (AppDsp_Init s)) = 0)"
proof -
  have last: "s_button_last_ms (AppDsp_Init s) = 0"
    by (simp add: AppDsp_Init_def)
  have "AppDsp_OnButtonPress t (AppDsp_Init s) = AppDsp_Init s" if "t < 300"
    by (rule button_rejected) (simp add: last that)
  moreover have "AppDsp_GetMode (AppDsp_Init s) = APP_FX_MODE_BYPASS"
    and "AppDsp_GetFxMask (AppDsp_Init s) = 0"
    by (simp_all add: AppDsp_Init_def AppDsp_GetMode_def AppDsp_GetFxMask_def)
  ultimately show ?thesis using last by simp
qed

theorem C10_first_press_debounced_witness:
  "(299 :: 32 word) < 300
   \<and> AppDsp_OnButtonPress 299 (AppDsp_Init boot_state) = AppDsp_Init boot_state
   \<and> AppDsp_GetMode (AppDsp_OnButtonPress 299 (AppDsp_Init boot_state)) = APP_FX_MODE_BYPASS
   \<and> AppDsp_GetFxMask (AppDsp_OnButtonPress 299 (AppDsp_Init boot_state)) = 0"
proof -
  have h: "(299 :: 32 word) < 300" by simp
  from C10_first_press_debounced [of boot_state 299] h show ?thesis by blast
qed

text \<open>
  C5, as the code has it.  Setting the exact mask of any of the five legacy modes makes that
  mode the current one.  A press is accepted when at least 300 ms, counted by unsigned
  32-bit subtraction, lie between it and the last accepted press; an accepted press moves
  the mode one step along bypass, distortion, reverb, delay, all, bypass and stores the exact
  mask of the new mode.  If the press at \<open>t\<close> is accepted, a second press at \<open>t + 299\<close>
  changes nothing (one mode change in total), and a second press at \<open>t + 300\<close> is accepted
  too (two mode changes), also when \<open>t + 300\<close> wraps around.
\<close>

theorem C5_mask_mode_cycle_debounce:
  "AppDsp_GetMode (AppDsp_SetFxMask (mask_for_mode md) s) = md
   \<and> (300 \<le> t - s_button_last_ms s \<longrightarrow>
        AppDsp_OnButtonPress t s =
          s\<lparr>s_button_last_ms := t, s_mode := next_mode (s_mode s),
            s_fx_mask := mask_for_mode (next_mode (s_mode s))\<rparr>
        \<and> AppDsp_OnButtonPress (t + 299) (AppDsp_OnButtonPress t s) = AppDsp_OnButtonPress t s
        \<and> AppDsp_OnButtonPress (t + 300) (AppDsp_OnButtonPress t s) =
          s\<lparr>s_button_last_ms := t + 300, s_mode := next_mode (next_mode (s_mode s)),
            s_fx_mask := mask_for_mode (next_mode (next_mode (s_mode s)))\<rparr>)"
proof -
  have set_get: "AppDsp_GetMode (AppDsp_SetFxMask (mask_for_mode md) s) = md"
    by (cases md)
       (simp_all add: AppDsp_GetMode_def AppDsp_SetFxMask_def mask_for_mode_def fx_bit_defs Let_def)
  have press: "AppDsp_OnButtonPress t s =
          s\<lparr>s_button_last_ms := t, s_mode := next_mode (s_mode s),
            s_fx_mask := mask_for_mode (next_mode (s_mode s))\<rparr>"
    (is "_ = ?s1") if "300 \<le> t - s_button_last_ms s"
    using that by (intro button_accepted) (simp add: not_less)
  have second_299: "AppDsp_OnButtonPress (t + 299) ?s1 = ?s1"
    by (rule button_rejected) simp
  have second_300: "AppDsp_OnButtonPress (t + 300) ?s1 =
          s\<lparr>s_button_last_ms := t + 300, s_mode := next_mode (next_mode (s_mode s)),
            s_fx_mask := mask_for_mode (next_mode (next_mode (s_mode s)))\<rparr>"
    by (subst button_accepted) simp_all
  show ?thesis
    using set_get press second_299 second_300 by simp
qed

theorem C5_mask_mode_cycle_debounce_witness:
  "(300 :: 32 word) \<le> 4294967040 - s_button_last_ms (AppDsp_Init boot_state)
   \<and> AppDsp_GetMode (AppDsp_OnButtonPress 4294967040 (AppDsp_Init boot_state))
       = APP_FX_MODE_DISTORTION
   \<and> AppDsp_GetMode (AppDsp_OnButtonPress (4294967040 + 299)
        (AppDsp_OnButtonPress 4294967040 (AppDsp_Init boot_state))) = APP_FX_MODE_DISTORTION
   \<and> AppDsp_GetMode (AppDsp_OnButtonPress (4294967040 + 300)
        (AppDsp_OnButtonPress 4294967040 (AppDsp_Init boot_state))) = APP_FX_MODE_REVERB
   \<and> AppDsp_GetFxMask (AppDsp_OnButtonPress (4294967040 + 300)
        (AppDsp_OnButtonPress 4294967040 (AppDsp_Init boot_state))) = 2"
proof -
  let ?S = "AppDsp_Init boot_state"
  let ?t = "4294967040 :: 32 word"
  have last: "s_button_last_ms ?S = 0" and mode: "s_mode ?S = APP_FX_MODE_BYPASS"
    by (simp_all add: AppDsp_Init_def)
  have h: "300 \<le> ?t - s_button_last_ms ?S"
    by (simp add: last)
  from C5_mask_mode_cycle_debounce [of APP_FX_MODE_ALL ?S ?t] h
  have a: "AppDsp_OnButtonPress ?t ?S =
      ?S\<lparr>s_button_last_ms := ?t, s_mode := next_mode (s_mode ?S),
         s_fx_mask := mask_for_mode (next_mode (s_mode ?S))\<rparr>"
    and b: "AppDsp_OnButtonPress (?t + 299) (AppDsp_OnButtonPress ?t ?S) = AppDsp_OnButtonPress ?t ?S"
    and c: "AppDsp_OnButtonPress (?t + 300) (AppDsp_OnButtonPress ?t ?S) =
      ?S\<lparr>s_button_last_ms := ?t + 300, s_mode := next_mode (next_mode (s_mode ?S)),
         s_fx_mask := mask_for_mode (next_mode (next_mode (s_mode ?S)))\<rparr>"
    by blast+
  have m1: "AppDsp_GetMode (AppDsp_OnButtonPress ?t ?S) = APP_FX_MODE_DISTORTION"
    by (subst a) (simp add: mode next_mode_def AppDsp_GetMode_def)
  have m2: "AppDsp_GetMode (AppDsp_OnButtonPress (?t + 299) (AppDsp_OnButtonPress ?t ?S))
      = APP_FX_MODE_DISTORTION"
    by (subst b) (rule m1)
  have m3: "AppDsp_GetMode (AppDsp_OnButtonPress (?t + 300) (AppDsp_OnButtonPress ?t ?S))
      = APP_FX_MODE_REVERB"
    by (subst c) (simp add: mode next_mode_def AppDsp_GetMode_def)
  have m4: "AppDsp_GetFxMask (AppDsp_OnButtonPress (?t + 300) (AppDsp_OnButtonPress ?t ?S)) = 2"
    by (subst c) (simp add: mode next_mode_def mask_for_mode_def AppDsp_GetFxMask_def)
  from h m1 m2 m3 m4 show ?thesis by blast
qed

text \<open>
  The claim as the specification words it, for every \<open>t\<close>, fails right after
  initialisation: the press at 0 is itself debounced, so presses at 0 and 299 change the
  mode not at all, and presses at 0 and 300 change it once.
\<close>

theorem C5_unconditional_counterexample:
  "AppDsp_GetMode (AppDsp_OnButtonPress (0 + 299) (AppDsp_OnButtonPress 0 (AppDsp_Init boot_state)))
     = APP_FX_MODE_BYPASS
   \<and> AppDsp_GetMode (AppDsp_OnButtonPress (0 + 300) (AppDsp_OnButtonPress 0 (AppDsp_Init boot_state)))
     = APP_FX_MODE_DISTORTION
   \<and> next_mode (next_mode APP_FX_MODE_BYPASS) = APP_FX_MODE_REVERB"
  by (simp add: AppDsp_GetMode_def AppDsp_OnButtonPress_def AppDsp_Init_def Let_def next_mode_def)

section \<open>Initialisation\<close>

text \<open>
  C3, evaluated where it fails.  A second \<open>AppDsp_Init\<close> restores mask, mode, timestamp and
  master gain, but none of the six parameters kept in the effect modules: after the drive
  was set to 100 and the delay feedback to 0, both still read 100 and 0 after
  re-initialisation, not 40960 and 16384.  From program start, where the static
  initialisers hold, initialisation does leave all documented defaults.
\<close>

theorem C3_reinit_keeps_module_params:
  "AppDsp_GetParam APP_DSP_PARAM_DIST_DRIVE_Q8
     (AppDsp_Init (AppDsp_SetParam APP_DSP_PARAM_DIST_DRIVE_Q8 100 (AppDsp_Init boot_state))) = 100
   \<and> AppDsp_GetParam APP_DSP_PARAM_DELAY_FEEDBACK_Q15
     (AppDsp_Init (AppDsp_SetParam APP_DSP_PARAM_DELAY_FEEDBACK_Q15 0 (AppDsp_Init boot_state))) = 0
   \<and> AppDsp_GetParam APP_DSP_PARAM_GAIN_Q15
     (AppDsp_Init (AppDsp_SetParam APP_DSP_PARAM_GAIN_Q15 100 (AppDsp_Init boot_state))) = 32768
   \<and> AppDsp_GetParam APP_DSP_PARAM_DIST_DRIVE_Q8 (AppDsp_Init boot_state) = 40960
   \<and> AppDsp_GetParam APP_DSP_PARAM_DELAY_FEEDBACK_Q15 (AppDsp_Init boot_state) = 16384"
  by (simp add: param_access_defs AppDsp_Init_def boot_state_def Let_def
        DspDistortion_Init_def DspDelay_Init_def DspReverb_Init_def DELAY_FEEDBACK_Q15_def)

section \<open>Arithmetic facts\<close>

lemma s32_id: "- 2147483648 \<le> x \<Longrightarrow> x \<le> 2147483647 \<Longrightarrow> s32 x = x"
  by (simp add: s32_def)

lemma c_div_pos: "0 \<le> a \<Longrightarrow> 0 < b \<Longrightarrow> c_div a b = a div b"
  by (cases "a = 0") (simp_all add: c_div_def)

lemma scale_bound:
  fixes x g M K :: int
  assumes "- M \<le> x" "x \<le> M" "0 \<le> g" "g \<le> K" "0 < K"
  shows "- M \<le> (x * g) div K \<and> (x * g) div K \<le> M"
proof -
  have M: "0 \<le> M" using assms by linarith
  have "x * g \<le> M * g" using assms by (intro mult_right_mono) auto
  also have "\<dots> \<le> M * K" using assms M by (intro mult_left_mono) auto
  finally have up: "x * g \<le> M * K" .
  have "(- M) * K \<le> (- M) * g" using assms M by (intro mult_left_mono_neg) auto
  also have "\<dots> \<le> x * g" using assms by (intro mult_right_mono) auto
  finally have lo: "(- M) * K \<le> x * g" .
  have "(x * g) div K \<le> (M * K) div K" using up assms by (intro zdiv_mono1) auto
  moreover have "((- M) * K) div K \<le> (x * g) div K" using lo assms by (intro zdiv_mono1) auto
  moreover have "((- M) * K) div K = - M"
    by (rule nonzero_mult_div_cancel_right) (use assms in simp)
  moreover have "(M * K) div K = M"
    by (rule nonzero_mult_div_cancel_right) (use assms in simp)
  ultimately show ?thesis by linarith
qed

lemma div_less_bound:
  fixes a c k :: int
  assumes "0 < k" "a < c * k"
  shows "a div k < c"
proof -
  have "(a + (- c) * k) div k = - c + a div k"
    by (rule div_mult_self1) (use assms in simp)
  moreover have "(a + (- c) * k) div k < 0"
    by (rule div_neg_pos_less0) (use assms in simp_all)
  ultimately show ?thesis by linarith
qed

lemma div_ge_bound:
  fixes a c k :: int
  assumes "0 < k" "c * k \<le> a"
  shows "c \<le> a div k"
proof -
  have "(c * k) div k \<le> a div k" using assms by (intro zdiv_mono1) auto
  moreover have "(c * k) div k = c"
    by (rule nonzero_mult_div_cancel_right) (use assms in simp)
  ultimately show ?thesis by linarith
qed

lemma abs_s32_abs: "- 2147483648 < x \<Longrightarrow> x \<le> 2147483647 \<Longrightarrow> abs_s32 x = \<bar>x\<bar>"
  by (simp add: abs_s32_def s32_id)

lemma in_s24_clamp: "in_s24 (clamp_s24 x)"
  by (simp add: in_s24_def clamp_s24_def)

lemma limiter_target_range: "0 \<le> peak \<Longrightarrow> 0 \<le> limiter_target peak \<and> limiter_target peak \<le> 32768"
proof (cases "peak > 6500000")
  case True
  then have "212992000000 div peak < 32768" by (intro div_less_bound) simp_all
  moreover have "0 \<le> 212992000000 div peak" using True by (intro div_ge_bound) simp_all
  ultimately show ?thesis using True by (simp add: limiter_target_def)
next
  case False then show ?thesis by (simp add: limiter_target_def)
qed

lemma limiter_gain_range:
  assumes "0 \<le> g" "g \<le> 32768" "0 \<le> t" "t \<le> 32768"
  shows "0 \<le> limiter_gain g t \<and> limiter_gain g t \<le> 32768
     \<and> (t < g \<longrightarrow> limiter_gain g t = t) \<and> (g \<le> t \<longrightarrow> g \<le> limiter_gain g t \<and> limiter_gain g t \<le> t)"
proof (cases "t < g")
  case True then show ?thesis using assms by (simp add: limiter_gain_def)
next
  case False
  then have d: "0 \<le> t - g" "t - g \<le> 32768" using assms by simp_all
  have "0 \<le> (16 * (t - g)) div 32768" using d by (intro div_ge_bound) simp_all
  moreover have "(16 * (t - g)) div 32768 \<le> t - g" using d by simp
  ultimately show ?thesis using False assms by (simp add: limiter_gain_def)
qed

lemma limiter_closed_form:
  assumes l: "- 2147483648 < l" "l \<le> 2147483647"
    and r: "- 2147483648 < r" "r \<le> 2147483647"
    and g: "0 \<le> lim_gain_q15 st" "lim_gain_q15 st \<le> 32768"
  shows "DspFilters_Limiter st l r =
      (let g' = limiter_gain (lim_gain_q15 st) (limiter_target (limiter_peak l r))
       in ((clamp_s24 ((l * g') div 32768), clamp_s24 ((r * g') div 32768)), \<lparr>lim_gain_q15 = g'\<rparr>))"
proof -
  define peak where "peak = limiter_peak l r"
  define t where "t = limiter_target peak"
  define g' where "g' = limiter_gain (lim_gain_q15 st) t"
  have peak: "0 \<le> peak" "peak \<le> 2147483647" using l r by (auto simp: peak_def limiter_peak_def)
  have pk: "(if abs_s32 l > abs_s32 r then abs_s32 l else abs_s32 r) = peak"
    using l r by (auto simp: abs_s32_abs peak_def limiter_peak_def)
  have t: "0 \<le> t" "t \<le> 32768" using limiter_target_range[OF peak(1)] by (simp_all add: t_def)
  have tgt: "(if peak > AUDIO_LIMITER_THRESH_S24
             then let t = s32 (c_div (AUDIO_LIMITER_THRESH_S24 * 32768) peak);
                      t1 = (if t < 0 then 0 else t)
                  in (if t1 > 32768 then 32768 else t1)
             else 32768) = t"
  proof (cases "peak > 6500000")
    case True
    have "c_div 212992000000 peak = 212992000000 div peak" using True by (intro c_div_pos) simp_all
    moreover have "t = 212992000000 div peak" using True by (simp add: t_def limiter_target_def)
    ultimately show ?thesis using True t by (simp add: AUDIO_LIMITER_THRESH_S24_def s32_id Let_def)
  next
    case False then show ?thesis by (simp add: AUDIO_LIMITER_THRESH_S24_def t_def limiter_target_def)
  qed
  have gr: "0 \<le> g'" "g' \<le> 32768" using limiter_gain_range[OF g t] by (simp_all add: g'_def)
  have gn: "(if t < lim_gain_q15 st then t
                else let g1 = s32 (lim_gain_q15 st + s32 (asr (AUDIO_LIMITER_RELEASE_Q15 * s32 (t - lim_gain_q15 st)) 15))
                     in (if g1 > 32768 then 32768 else g1)) = g'"
  proof (cases "t < lim_gain_q15 st")
    case True then show ?thesis by (simp add: g'_def limiter_gain_def)
  next
    case False
    then have d: "0 \<le> t - lim_gain_q15 st" "t - lim_gain_q15 st \<le> 32768" using g t by simp_all
    have q: "0 \<le> (16 * (t - lim_gain_q15 st)) div 32768" using d by (intro div_ge_bound) simp_all
    have q2: "(16 * (t - lim_gain_q15 st)) div 32768 \<le> t - lim_gain_q15 st" using d by simp
    have m: "min 32768 x = (if x > 32768 then 32768 else x)" for x :: int by auto
    have "s32 (t - lim_gain_q15 st) = t - lim_gain_q15 st" using d by (simp add: s32_id)
    moreover have "s32 (asr (16 * (t - lim_gain_q15 st)) 15) = (16 * (t - lim_gain_q15 st)) div 32768"
      using d q q2 by (simp add: asr_def s32_id)
    moreover have "s32 (lim_gain_q15 st + (16 * (t - lim_gain_q15 st)) div 32768)
        = lim_gain_q15 st + (16 * (t - lim_gain_q15 st)) div 32768"
      using d q q2 g by (intro s32_id) linarith+
    ultimately show ?thesis using False
      by (simp only: g'_def limiter_gain_def AUDIO_LIMITER_RELEASE_Q15_def Let_def m if_False)
  qed
  have sl: "s32 (asr (l * g') 15) = (l * g') div 32768"
    using scale_bound[of 2147483647 l g' 32768] l gr by (simp add: asr_def s32_id)
  have sr: "s32 (asr (r * g') 15) = (r * g') div 32768"
    using scale_bound[of 2147483647 r g' 32768] r gr by (simp add: asr_def s32_id)
  note tgt' = tgt [unfolded Let_def]
  note gn' = gn [unfolded Let_def]
  have "DspFilters_Limiter st l r =
      ((clamp_s24 ((l * g') div 32768), clamp_s24 ((r * g') div 32768)), \<lparr>lim_gain_q15 = g'\<rparr>)"
    apply (simp only: DspFilters_Limiter_def Let_def)
    apply (simp only: pk)
    apply (simp only: tgt')
    apply (simp only: gn')
    apply (simp only: sl sr)
    done
  then show ?thesis
    by (simp only: Let_def g'_def t_def peak_def)
qed


section \<open>Limiter\<close>

text \<open>
  One call of the limiter.  Whatever the inputs and the stored gain, both outputs of \<open>DspFilters_Limiter\<close> lie in
  \<open>[-8388608, 8388607]\<close>.  For inputs whose magnitude fits 32 bits and a stored gain in
  \<open>[0, 32768]\<close>, the limiter takes the peak \<open>max |l| |r|\<close>; the target gain is
  \<open>6500000 * 32768 div peak\<close> when the peak exceeds 6500000 and unity otherwise, and lies in
  \<open>[0, 32768]\<close>; the new gain equals the target whenever the target is below the stored
  gain, and otherwise moves from the stored gain towards the target without passing it;
  the new gain is stored and, in the same call, scales both channels alike before the clamp.
\<close>

lemma limiter_step:
  "in_s24 (fst (fst (DspFilters_Limiter st l r)))
   \<and> in_s24 (snd (fst (DspFilters_Limiter st l r)))
   \<and> (- 2147483648 < l \<and> l \<le> 2147483647 \<and> - 2147483648 < r \<and> r \<le> 2147483647
        \<and> 0 \<le> lim_gain_q15 st \<and> lim_gain_q15 st \<le> 32768 \<longrightarrow>
      (let g = lim_gain_q15 st;
           target = limiter_target (limiter_peak l r);
           g' = limiter_gain g target
       in DspFilters_Limiter st l r =
            ((clamp_s24 ((l * g') div 32768), clamp_s24 ((r * g') div 32768)),
             \<lparr>lim_gain_q15 = g'\<rparr>)
          \<and> 0 \<le> target \<and> target \<le> 32768
          \<and> 0 \<le> g' \<and> g' \<le> 32768
          \<and> (target < g \<longrightarrow> g' = target)
          \<and> (g \<le> target \<longrightarrow> g \<le> g' \<and> g' \<le> target)))"
proof -
  have range: "in_s24 (fst (fst (DspFilters_Limiter st l r)))"
    "in_s24 (snd (fst (DspFilters_Limiter st l r)))"
    by (simp_all add: DspFilters_Limiter_def Let_def in_s24_clamp)
  have main: "(let g = lim_gain_q15 st;
           target = limiter_target (limiter_peak l r);
           g' = limiter_gain g target
       in DspFilters_Limiter st l r =
            ((clamp_s24 ((l * g') div 32768), clamp_s24 ((r * g') div 32768)),
             \<lparr>lim_gain_q15 = g'\<rparr>)
          \<and> 0 \<le> target \<and> target \<le> 32768
          \<and> 0 \<le> g' \<and> g' \<le> 32768
          \<and> (target < g \<longrightarrow> g' = target)
          \<and> (g \<le> target \<longrightarrow> g \<le> g' \<and> g' \<le> target))"
    if h: "- 2147483648 < l" "l \<le> 2147483647" "- 2147483648 < r" "r \<le> 2147483647"
      "0 \<le> lim_gain_q15 st" "lim_gain_q15 st \<le> 32768"
  proof -
    have pk: "0 \<le> limiter_peak l r" by (simp add: limiter_peak_def)
    note t = limiter_target_range [OF pk]
    from t have t1: "0 \<le> limiter_target (limiter_peak l r)"
      and t2: "limiter_target (limiter_peak l r) \<le> 32768" by simp_all
    note gr = limiter_gain_range [OF h(5) h(6) t1 t2]
    note cf = limiter_closed_form [OF h, unfolded Let_def]
    show ?thesis
      unfolding Let_def using cf t1 t2 gr by blast
  qed
  from range main show ?thesis by blast
qed

lemma limiter_step_example:
  "DspFilters_Limiter \<lparr>lim_gain_q15 = 32768\<rparr> 8000000 (- 8388608)
     = ((6198730, - 6499840), \<lparr>lim_gain_q15 = 25390\<rparr>)
   \<and> in_s24 (fst (fst (DspFilters_Limiter \<lparr>lim_gain_q15 = 32768\<rparr> 8000000 (- 8388608))))"
  using limiter_step [of "\<lparr>lim_gain_q15 = 32768\<rparr>" 8000000 "- 8388608"]
  by (simp add: limiter_peak_def limiter_target_def limiter_gain_def clamp_s24_def in_s24_def Let_def)

lemma limiter_silence_stalls:
  assumes "30721 \<le> lim_gain_q15 st" "lim_gain_q15 st \<le> 32768"
  shows "DspFilters_Limiter st 0 0 = ((0, 0), st)"
proof -
  have h: "- 2147483648 < (0::int)" "(0::int) \<le> 2147483647" "0 \<le> lim_gain_q15 st"
    using assms by simp_all
  have d: "0 \<le> 16 * (32768 - lim_gain_q15 st)" "16 * (32768 - lim_gain_q15 st) < 32768"
    using assms by simp_all
  have z: "(16 * (32768 - lim_gain_q15 st)) div 32768 = 0"
    using d by (rule div_pos_pos_trivial)
  have g: "limiter_gain (lim_gain_q15 st) (limiter_target (limiter_peak 0 0)) = lim_gain_q15 st"
    using assms z by (simp add: limiter_gain_def limiter_target_def limiter_peak_def)
  show ?thesis
    using limiter_closed_form [OF h(1,2) h(1,2) h(3) assms(2)]
    by (simp add: Let_def g clamp_s24_def)
qed

lemma limiter_run_silence_stalls:
  "30721 \<le> lim_gain_q15 st \<Longrightarrow> lim_gain_q15 st \<le> 32768 \<Longrightarrow>
   limiter_run st (replicate n (0, 0)) = (replicate n (0, 0), st)"
  by (induction n) (simp_all add: limiter_silence_stalls)

lemma limiter_attack_example:
  "DspFilters_Limiter \<lparr>lim_gain_q15 = 32768\<rparr> 6800000 0 = ((6499926, 0), \<lparr>lim_gain_q15 = 31322\<rparr>)"
proof -
  have "DspFilters_Limiter \<lparr>lim_gain_q15 = 32768\<rparr> 6800000 0 =
      (let g' = limiter_gain (lim_gain_q15 \<lparr>lim_gain_q15 = 32768\<rparr>) (limiter_target (limiter_peak 6800000 0))
       in ((clamp_s24 ((6800000 * g') div 32768), clamp_s24 ((0 * g') div 32768)), \<lparr>lim_gain_q15 = g'\<rparr>))"
    by (rule limiter_closed_form) simp_all
  then show ?thesis
    by (simp add: Let_def limiter_gain_def limiter_target_def limiter_peak_def clamp_s24_def)
qed

text \<open>
  C2, evaluated where it fails.  The attack is instant, as claimed: from unity gain the
  frame \<open>(6800000, 0)\<close> drops the stored gain to 31322 in the same call.  The release does
  not bring the gain back toward unity: its step \<open>(16 * (target - g)) >> 15\<close> is 0 as soon
  as the target is less than 2048 above the gain, so over any number \<open>n\<close> of silent frames
  that follow the gain stays 31322.  Likewise a stored gain of 31000 does not move on
  silence, and 30720 moves once, to 30721, the highest gain the release can reach.
\<close>

theorem C2_release_stalls:
  "limiter_run \<lparr>lim_gain_q15 = 32768\<rparr> ((6800000, 0) # replicate n (0, 0))
     = ((6499926, 0) # replicate n (0, 0), \<lparr>lim_gain_q15 = 31322\<rparr>)
   \<and> DspFilters_Limiter \<lparr>lim_gain_q15 = 31000\<rparr> 0 0 = ((0, 0), \<lparr>lim_gain_q15 = 31000\<rparr>)
   \<and> DspFilters_Limiter \<lparr>lim_gain_q15 = 30720\<rparr> 0 0 = ((0, 0), \<lparr>lim_gain_q15 = 30721\<rparr>)"
proof -
  have a: "limiter_run \<lparr>lim_gain_q15 = 31322\<rparr> (replicate n (0, 0))
      = (replicate n (0, 0), \<lparr>lim_gain_q15 = 31322\<rparr>)"
    by (rule limiter_run_silence_stalls) simp_all
  have b: "DspFilters_Limiter \<lparr>lim_gain_q15 = 31000\<rparr> 0 0 = ((0, 0), \<lparr>lim_gain_q15 = 31000\<rparr>)"
    by (rule limiter_silence_stalls) simp_all
  have c: "DspFilters_Limiter \<lparr>lim_gain_q15 = 30720\<rparr> 0 0 = ((0, 0), \<lparr>lim_gain_q15 = 30721\<rparr>)"
  proof -
    have "DspFilters_Limiter \<lparr>lim_gain_q15 = 30720\<rparr> 0 0 =
      (let g' = limiter_gain (lim_gain_q15 \<lparr>lim_gain_q15 = 30720\<rparr>) (limiter_target (limiter_peak 0 0))
       in ((clamp_s24 ((0 * g') div 32768), clamp_s24 ((0 * g') div 32768)), \<lparr>lim_gain_q15 = g'\<rparr>))"
      by (rule limiter_closed_form) simp_all
    then show ?thesis
      by (simp add: Let_def limiter_gain_def limiter_target_def limiter_peak_def clamp_s24_def)
  qed
  show ?thesis
    by (simp add: limiter_attack_example a b c)
qed

section \<open>Delay: auxiliary facts\<close>

lemma clamp_div256: "- 32768 \<le> clamp_s24 x div 256 \<and> clamp_s24 x div 256 \<le> 32767"
proof -
  have c: "- 8388608 \<le> clamp_s24 x" "clamp_s24 x \<le> 8388607" by (simp_all add: clamp_s24_def)
  have "- 32768 \<le> clamp_s24 x div 256" using c by (intro div_ge_bound) simp_all
  moreover have "clamp_s24 x div 256 < 32768" using c by (intro div_less_bound) simp_all
  ultimately show ?thesis by simp
qed

lemma clamp_idem: "clamp_s24 (clamp_s24 v) = clamp_s24 v"
  by (simp add: clamp_s24_def)

lemma in_s16_s24_to_s16: "in_s16 (s24_to_s16 x)"
  using clamp_div256 [of x] by (simp add: s24_to_s16_def Let_def in_s16_def s16_def asr_def)

lemma s24_to_s16_clamp: "s24_to_s16 (clamp_s24 v) = clamp_s24 v div 256"
  using clamp_div256 [of v] by (simp add: s24_to_s16_def Let_def asr_def s16_def clamp_idem)

lemma widen_s16: "in_s16 v \<Longrightarrow> s32 (v * 256) = v * 256 \<and> in_s24 (v * 256)"
  by (simp add: in_s16_def in_s24_def s32_id)

lemma idx_mask_bound: "unat ((i + 1) AND DELAY_MASK) < DELAY_LEN"
proof -
  have "(i + 1) AND DELAY_MASK \<le> DELAY_MASK" by (rule word_and_le1)
  then have "unat ((i + 1) AND DELAY_MASK) \<le> unat DELAY_MASK" by (simp add: word_le_nat_alt)
  then show ?thesis by (simp add: DELAY_MASK_def DELAY_LEN_def)
qed

lemma phase_step: "unat (word_of_nat (n mod 8) :: 8 word) = n mod 8"
  by (simp add: unat_of_nat mod_mod_cancel)

lemma list_all_update: "list_all P xs \<Longrightarrow> P v \<Longrightarrow> list_all P (xs[i := v])"
  by (induction xs arbitrary: i) (auto split: nat.splits)

lemma Process_hold:
  "phase st \<noteq> 0 \<Longrightarrow>
   DspDelay_Process fbq x buf st =
     Some (last_out_s24 st, buf, st\<lparr>phase := word_of_nat ((unat (phase st) + 1) mod DELAY_DECIM)\<rparr>)"
  by (simp add: DspDelay_Process_def)

lemma Process_update_raw:
  "phase st = 0 \<Longrightarrow> unat (idx st) < length buf \<Longrightarrow>
   DspDelay_Process fbq x buf st =
     (let i = idx st; d = s32 (buf ! unat i * 256);
          lp = fst (onepole_lpf_s24 d (fb_lp_s24 st) DELAY_FB_LPF_A_Q15);
          fb = s32 (asr (fbq * lp) 15)
      in Some (d, buf[unat i := s24_to_s16 (clamp_s24 (s32 (x + fb)))],
               \<lparr>idx = (i + 1) AND DELAY_MASK, phase = 1, last_out_s24 = d, fb_lp_s24 = lp\<rparr>))"
  by (simp add: DspDelay_Process_def Let_def DELAY_DECIM_def)

lemma Process_wf:
  assumes "delay_wf buf st"
  shows "\<exists>y buf' st'. DspDelay_Process fbq x buf st = Some (y, buf', st') \<and> in_s24 y \<and> delay_wf buf' st'"
proof (cases "phase st = 0")
  case True
  from assms have i: "unat (idx st) < length buf" and e: "in_s16 (buf ! unat (idx st))"
    by (auto simp: delay_wf_def list_all_length)
  note w = widen_s16 [OF e]
  have lp: "in_s24 (fst (onepole_lpf_s24 d s a))" for d s a
    by (simp add: onepole_lpf_s24_def Let_def in_s24_clamp)
  show ?thesis
    using assms w lp
    by (simp add: Process_update_raw [OF True i] Let_def delay_wf_def idx_mask_bound
        list_all_update in_s16_s24_to_s16 DELAY_DECIM_def)
next
  case False
  show ?thesis
    using assms by (simp add: Process_hold [OF False] delay_wf_def phase_step DELAY_DECIM_def)
qed

lemma run_wf:
  "delay_wf buf st \<Longrightarrow>
   \<exists>ys buf' st'. delay_run fbq buf st xs = Some (ys, buf', st') \<and> length ys = length xs
      \<and> list_all in_s24 ys \<and> delay_wf buf' st'"
proof (induction xs arbitrary: buf st)
  case Nil
  then show ?case by simp
next
  case (Cons x xs)
  from Process_wf [OF Cons.prems, of fbq x]
  obtain y buf1 st1 where p: "DspDelay_Process fbq x buf st = Some (y, buf1, st1)"
    and y: "in_s24 y" and wf1: "delay_wf buf1 st1" by blast
  from Cons.IH [OF wf1]
  obtain ys buf2 st2 where r: "delay_run fbq buf1 st1 xs = Some (ys, buf2, st2)"
    and l: "length ys = length xs" and a: "list_all in_s24 ys" and wf2: "delay_wf buf2 st2" by blast
  show ?case using p r l a y wf2 by simp
qed


lemma list_all_replicate_iff: "list_all P (replicate n x) = (n = 0 \<or> P x)"
  by (induction n) auto

lemma asr15: "asr x 15 = x div 32768"
  by (simp add: asr_def)

lemma asr8: "asr x 8 = x div 256"
  by (simp add: asr_def)

lemma onepole_closed:
  assumes "in_s24 d" "in_s24 st" "0 \<le> a" "a \<le> 32768"
  shows "onepole_lpf_s24 d st a =
     (clamp_s24 (st + (a * (d - st)) div 32768), clamp_s24 (st + (a * (d - st)) div 32768))"
proof -
  have r: "- 16777215 \<le> d - st" "d - st \<le> 16777215"
    using assms by (simp_all add: in_s24_def)
  then have s1: "s32 (d - st) = d - st" by (intro s32_id) simp_all
  have b: "- 16777215 \<le> ((d - st) * a) div 32768 \<and> ((d - st) * a) div 32768 \<le> 16777215"
    using r assms by (intro scale_bound) simp_all
  then have b': "- 16777215 \<le> (a * (d - st)) div 32768" "(a * (d - st)) div 32768 \<le> 16777215"
    by (simp_all add: mult.commute)
  then have s2: "s32 ((a * (d - st)) div 32768) = (a * (d - st)) div 32768"
    by (intro s32_id) simp_all
  have s3: "s32 (st + (a * (d - st)) div 32768) = st + (a * (d - st)) div 32768"
    using b' assms by (intro s32_id) (simp_all add: in_s24_def)
  show ?thesis
    by (simp only: onepole_lpf_s24_def Let_def asr15 s1 s2 s3)
qed

lemma feedback_closed:
  assumes "in_s24 lp" "0 \<le> fbq" "fbq \<le> 32768"
  shows "s32 (asr (fbq * lp) 15) = (fbq * lp) div 32768"
    and "- 8388608 \<le> (fbq * lp) div 32768" and "(fbq * lp) div 32768 \<le> 8388608"
proof -
  have "- 8388608 \<le> (lp * fbq) div 32768 \<and> (lp * fbq) div 32768 \<le> 8388608"
    using assms by (intro scale_bound) (simp_all add: in_s24_def)
  then show b: "- 8388608 \<le> (fbq * lp) div 32768" "(fbq * lp) div 32768 \<le> 8388608"
    by (simp_all add: mult.commute)
  then show "s32 (asr (fbq * lp) 15) = (fbq * lp) div 32768"
    by (simp add: asr_def s32_id)
qed

lemma Process_update_closed:
  assumes wf: "delay_wf buf st" and ph: "phase st = 0"
    and fq: "0 \<le> fbq" "fbq \<le> 32768" and x: "in_s24 x"
  shows "DspDelay_Process fbq x buf st =
     (let i = unat (idx st); d = buf ! i * 256;
          lp = clamp_s24 (fb_lp_s24 st + (1024 * (d - fb_lp_s24 st)) div 32768);
          fb = (fbq * lp) div 32768
      in Some (d, buf[i := clamp_s24 (x + fb) div 256],
               \<lparr>idx = (idx st + 1) AND 1023, phase = 1, last_out_s24 = d, fb_lp_s24 = lp\<rparr>))"
proof -
  from wf have i: "unat (idx st) < length buf" and e: "in_s16 (buf ! unat (idx st))"
    and l: "in_s24 (fb_lp_s24 st)"
    by (auto simp: delay_wf_def list_all_length)
  define d where "d = buf ! unat (idx st) * 256"
  define lp where "lp = clamp_s24 (fb_lp_s24 st + (1024 * (d - fb_lp_s24 st)) div 32768)"
  define fb where "fb = (fbq * lp) div 32768"
  have d1: "s32 (buf ! unat (idx st) * 256) = d" and d2: "in_s24 d"
    using widen_s16 [OF e] by (simp_all add: d_def)
  have lp1: "fst (onepole_lpf_s24 d (fb_lp_s24 st) DELAY_FB_LPF_A_Q15) = lp"
    by (simp add: onepole_closed [OF d2 l] DELAY_FB_LPF_A_Q15_def lp_def)
  have lp2: "in_s24 lp" by (simp add: lp_def in_s24_clamp)
  note f = feedback_closed [OF lp2 fq]
  have fb1: "s32 (asr (fbq * lp) 15) = fb" using f(1) by (simp add: fb_def)
  have xs: "s32 (x + fb) = x + fb"
    using f(2,3) x by (intro s32_id) (simp_all add: fb_def in_s24_def)
  have "DspDelay_Process fbq x buf st =
      Some (d, buf[unat (idx st) := clamp_s24 (x + fb) div 256],
               \<lparr>idx = (idx st + 1) AND 1023, phase = 1, last_out_s24 = d, fb_lp_s24 = lp\<rparr>)"
    apply (simp only: Process_update_raw [OF ph i] Let_def)
    apply (simp only: d1)
    apply (simp only: lp1)
    apply (simp only: fb1 xs s24_to_s16_clamp DELAY_MASK_def)
    done
  then show ?thesis by (simp only: Let_def d_def lp_def fb_def)
qed

lemma hold_run:
  "unat (phase st) < 8 \<Longrightarrow> (xs \<noteq> [] \<longrightarrow> 0 < unat (phase st)) \<Longrightarrow>
   unat (phase st) + length xs \<le> 8 \<Longrightarrow>
   delay_run fbq buf st xs =
     Some (replicate (length xs) (last_out_s24 st), buf,
           st\<lparr>phase := word_of_nat ((unat (phase st) + length xs) mod 8)\<rparr>)"
proof (induction xs arbitrary: st)
  case Nil
  then show ?case by simp
next
  case (Cons x xs)
  from Cons.prems have nz: "phase st \<noteq> 0" by (auto simp: unat_eq_0)
  let ?st1 = "st\<lparr>phase := word_of_nat ((unat (phase st) + 1) mod DELAY_DECIM)\<rparr>"
  have p1: "unat (phase ?st1) = (unat (phase st) + 1) mod 8"
    by (simp add: DELAY_DECIM_def phase_step)
  have small: "xs \<noteq> [] \<Longrightarrow> unat (phase st) + 1 < 8" using Cons.prems by (cases xs) auto
  have a: "unat (phase ?st1) < 8" by (subst p1) simp
  have b: "xs \<noteq> [] \<longrightarrow> 0 < unat (phase ?st1)" using small by (subst p1) auto
  have c: "unat (phase ?st1) + length xs \<le> 8"
  proof (cases xs)
    case Nil then show ?thesis using a by simp
  next
    case (Cons y ys)
    then have "unat (phase st) + 1 < 8" using small by simp
    then show ?thesis using Cons.prems(3) by (subst p1) simp
  qed
  have e: "(unat (phase ?st1) + length xs) mod 8 = (unat (phase st) + length (x # xs)) mod 8"
    by (subst p1) (simp add: mod_simps)
  show ?case
    using Cons.IH [OF a b c]
    by (simp only: delay_run.simps Process_hold [OF nz] e) simp
qed


section \<open>Delay: decimated update\<close>

text \<open>
  C6.  For a well-formed channel state, a feedback in \<open>[0, 32768]\<close> and an input sample:
  on the tick with phase 0, \<open>DspDelay_Process\<close> reads the buffer at the cursor (\<open>d\<close>, the
  stored 16-bit value times 256), low-passes it into the feedback state (\<open>lp\<close>), scales
  that by the feedback, adds the input, saturates, stores the result (as 16 bits) at the
  cursor, advances the cursor by one modulo 1024, holds \<open>d\<close> and returns it; on a tick with
  another phase it returns the held output and changes nothing but the phase.  Every call
  leaves the cursor below 1024 and the state well-formed.  The phase counts modulo 8, so
  of eight consecutive calls starting at phase 0 only the first one updates buffer, cursor
  and feedback state, and all eight return the sample read by the first.
\<close>

theorem C6_delay_decimated_update:
  assumes wf: "delay_wf buf st" and fq: "0 \<le> fbq" "fbq \<le> 32768" and x: "in_s24 x"
  shows
    "(phase st = 0 \<longrightarrow>
        DspDelay_Process fbq x buf st =
          (let i = unat (idx st); d = buf ! i * 256;
               lp = clamp_s24 (fb_lp_s24 st + (1024 * (d - fb_lp_s24 st)) div 32768);
               fb = (fbq * lp) div 32768
           in Some (d, buf[i := clamp_s24 (x + fb) div 256],
                    \<lparr>idx = (idx st + 1) AND 1023, phase = 1, last_out_s24 = d, fb_lp_s24 = lp\<rparr>)))
     \<and> (phase st \<noteq> 0 \<longrightarrow>
        DspDelay_Process fbq x buf st =
          Some (last_out_s24 st, buf, st\<lparr>phase := word_of_nat ((unat (phase st) + 1) mod 8)\<rparr>))
     \<and> (\<exists>y buf' st'. DspDelay_Process fbq x buf st = Some (y, buf', st')
          \<and> unat (idx st') < 1024 \<and> delay_wf buf' st')
     \<and> (phase st = 0 \<and> length xs = 7 \<longrightarrow>
        delay_run fbq buf st (x # xs) =
          (let i = unat (idx st); d = buf ! i * 256;
               lp = clamp_s24 (fb_lp_s24 st + (1024 * (d - fb_lp_s24 st)) div 32768);
               fb = (fbq * lp) div 32768
           in Some (replicate 8 d, buf[i := clamp_s24 (x + fb) div 256],
                    \<lparr>idx = (idx st + 1) AND 1023, phase = 0, last_out_s24 = d, fb_lp_s24 = lp\<rparr>)))"
proof -
  define d where "d = buf ! unat (idx st) * 256"
  define lp where "lp = clamp_s24 (fb_lp_s24 st + (1024 * (d - fb_lp_s24 st)) div 32768)"
  define buf1 where "buf1 = buf[unat (idx st) := clamp_s24 (x + (fbq * lp) div 32768) div 256]"
  define st1 where
    "st1 = \<lparr>idx = (idx st + 1) AND 1023, phase = 1, last_out_s24 = d, fb_lp_s24 = lp\<rparr>"
  have upd: "DspDelay_Process fbq x buf st = Some (d, buf1, st1)" if "phase st = 0"
    using Process_update_closed [OF wf that fq x]
    by (simp only: Let_def d_def lp_def buf1_def st1_def)
  have hold: "DspDelay_Process fbq x buf st =
      Some (last_out_s24 st, buf, st\<lparr>phase := word_of_nat ((unat (phase st) + 1) mod 8)\<rparr>)"
    if "phase st \<noteq> 0"
    using Process_hold [OF that, of fbq x buf] by (simp only: DELAY_DECIM_def)
  from Process_wf [OF wf, of fbq x]
  have keep: "\<exists>y buf' st'. DspDelay_Process fbq x buf st = Some (y, buf', st')
          \<and> unat (idx st') < 1024 \<and> delay_wf buf' st'"
    by (auto simp: delay_wf_def DELAY_LEN_def)
  have run: "delay_run fbq buf st (x # xs) =
      Some (replicate 8 d, buf1, st1\<lparr>phase := 0\<rparr>)"
    if ph: "phase st = 0" and len: "length xs = 7"
  proof -
    have "delay_run fbq buf1 st1 xs =
        Some (replicate (length xs) (last_out_s24 st1), buf1,
          st1\<lparr>phase := word_of_nat ((unat (phase st1) + length xs) mod 8)\<rparr>)"
      by (rule hold_run) (simp_all add: st1_def len)
    then have "delay_run fbq buf1 st1 xs = Some (replicate 7 d, buf1, st1\<lparr>phase := 0\<rparr>)"
      by (simp add: st1_def len)
    moreover have "replicate 8 d = d # replicate 7 d"
      by (simp add: numeral_eq_Suc)
    ultimately show ?thesis
      by (simp add: upd [OF ph])
  qed
  have run': "delay_run fbq buf st (x # xs) =
      Some (replicate 8 d, buf1,
        \<lparr>idx = (idx st + 1) AND 1023, phase = 0, last_out_s24 = d, fb_lp_s24 = lp\<rparr>)"
    if "phase st = 0" and "length xs = 7"
    using run [OF that] by (simp add: st1_def)
  show ?thesis
    unfolding Let_def
    using upd hold keep run'
    by (simp only: d_def lp_def buf1_def st1_def) blast
qed

theorem C6_delay_decimated_update_witness:
  "delay_wf ((replicate 1024 0)[5 := 1000])
      \<lparr>idx = 5, phase = 0, last_out_s24 = 0, fb_lp_s24 = 100\<rparr>
   \<and> (0 :: int) \<le> 16384 \<and> (16384 :: int) \<le> 32768 \<and> in_s24 8000000
   \<and> delay_run 16384 ((replicate 1024 0)[5 := 1000])
        \<lparr>idx = 5, phase = 0, last_out_s24 = 0, fb_lp_s24 = 100\<rparr> [8000000, 1, 2, 3, 4, 5, 6, 7]
      = Some (replicate 8 256000, (replicate 1024 0)[5 := 31265],
              \<lparr>idx = 6, phase = 0, last_out_s24 = 256000, fb_lp_s24 = 8096\<rparr>)"
proof -
  let ?buf = "(replicate 1024 (0::int))[5 := 1000]"
  let ?st = "\<lparr>idx = 5, phase = 0, last_out_s24 = 0, fb_lp_s24 = 100\<rparr>"
  have wf: "delay_wf ?buf ?st"
    by (simp add: delay_wf_def DELAY_LEN_def DELAY_DECIM_def list_all_update
        list_all_replicate_iff in_s16_def in_s24_def)
  have x: "in_s24 8000000" by (simp add: in_s24_def)
  have fq: "(0 :: int) \<le> 16384" "(16384 :: int) \<le> 32768" by simp_all
  have pl: "phase ?st = 0 \<and> length [1, 2, 3, 4, 5, 6, 7 :: int] = 7" by simp
  note r = C6_delay_decimated_update [OF wf fq x, of "[1, 2, 3, 4, 5, 6, 7]",
      THEN conjunct2, THEN conjunct2, THEN conjunct2, THEN mp, OF pl]
  have e: "?buf ! unat (idx ?st) = 1000" by simp
  have "delay_run 16384 ?buf ?st [8000000, 1, 2, 3, 4, 5, 6, 7]
      = Some (replicate 8 256000, (replicate 1024 0)[5 := 31265],
              \<lparr>idx = 6, phase = 0, last_out_s24 = 256000, fb_lp_s24 = 8096\<rparr>)"
    apply (subst r)
    apply (simp only: Let_def e)
    apply (simp add: clamp_s24_def)
    done
  with wf x fq show ?thesis by blast
qed

section \<open>Reverb: auxiliary facts\<close>

lemma int_and_2047: "(x :: int) AND 2047 = x mod 2048"
proof -
  have a: "x AND mask 11 = take_bit 11 x" by (simp add: take_bit_eq_mask)
  have b: "take_bit 11 x = x mod 2 ^ 11" by (rule take_bit_eq_mod)
  have c: "(mask 11 :: int) = 2047" by (simp add: mask_eq_exp_minus_1)
  from a b c show ?thesis by simp
qed

lemma int_and_255: "(x :: int) AND 255 = x mod 256"
proof -
  have a: "x AND mask 8 = take_bit 8 x" by (simp add: take_bit_eq_mask)
  have b: "take_bit 8 x = x mod 2 ^ 8" by (rule take_bit_eq_mod)
  have c: "(mask 8 :: int) = 255" by (simp add: mask_eq_exp_minus_1)
  from a b c show ?thesis by simp
qed

lemma word_mask_bound:
  fixes i m :: "32 word"
  shows "unat (i AND m) \<le> unat m"
  using word_and_le1 [of i m] by (simp add: word_le_nat_alt)

lemma uint_small: "unat (i :: 32 word) < 2048 \<Longrightarrow> 0 \<le> uint i \<and> uint i < 2048"
  using uint_nat [of i] by linarith

lemma sint_small: "unat (i :: 32 word) < 2048 \<Longrightarrow> sint i = uint i"
proof -
  assume "unat i < 2048"
  then have u: "0 \<le> uint i" "uint i < 2048" using uint_small by blast+
  have "sint i = signed_take_bit 31 (uint i)" by (simp add: sint_uint)
  also have "\<dots> = uint i"
  proof (rule signed_take_bit_int_eq_self)
    have p: "(2 :: int) ^ 31 = 2147483648" by simp
    show "- (2 ^ 31) \<le> uint i" using u p by linarith
    show "uint i < 2 ^ 31" using u p by linarith
  qed
  finally show ?thesis .
qed

lemma lfo_off: "triangle_lfo_offset_q8 ph step 0 = (0, ph + step)"
  by (simp add: triangle_lfo_offset_q8_def Let_def s32_def c_div_def)


lemma allpass_step:
  "base + unat i < length buf \<Longrightarrow>
   allpass_process_s24_len x buf base i msk =
     Some (allpass_out x (buf ! (base + unat i)),
           buf[base + unat i :=
             clamp_s24 (s32 (x + s32 (asr (REVERB_AP_G_Q15
               * s32 (buf ! (base + unat i) - s32 (asr (REVERB_AP_G_Q15 * x) 15))) 15)))],
           (i + 1) AND msk)"
  by (simp add: allpass_process_s24_len_def allpass_out_def Let_def)

lemma in_s24_allpass_out: "in_s24 (allpass_out x b)"
  by (simp add: allpass_out_def in_s24_clamp)

lemma reverb_tap_defined:
  assumes "length dl = 2048"
  shows "\<exists>d lfo'. reverb_tap dl i lfo lfo_step = Some (d, lfo')"
proof -
  have b: "0 \<le> (x :: int) AND 2047 \<and> nat (x AND 2047) < 2048" for x
    by (simp add: int_and_2047)
  show ?thesis
    using b assms by (simp add: reverb_tap_def Let_def split: prod.splits)
qed

lemma reverb_tap_raw:
  assumes "length dl = 2048" "unat i < 2048" "in_s24 (dl ! unat i)"
  shows "reverb_tap dl i lfo lfo_step = Some (dl ! unat i, lfo + lfo_step)"
proof -
  from uint_small [OF assms(2)] have u: "0 \<le> uint i" "uint i < 2048" by blast+
  have s: "sint i = uint i" using assms by (simp add: sint_small)
  have r: "s32 (uint i) = uint i" by (rule s32_id) (use u in linarith)+
  have r2: "s32 (uint i + 2048) = uint i + 2048" by (rule s32_id) (use u in linarith)+
  have m: "uint i mod 2048 = uint i" using u by simp
  have r3: "s32 (uint i + 1) = uint i + 1" by (rule s32_id) (use u in linarith)+
  have n1: "nat ((uint i + 1) mod 2048) < 2048" by simp
  have z: "asr 0 8 = 0" "(0::int) AND 255 = 0" "s32 0 = 0" by (simp_all add: asr_def s32_def)
  have e: "s32 (dl ! unat i) = dl ! unat i"
    using assms(3) by (intro s32_id) (simp_all add: in_s24_def)
  show ?thesis
    using assms n1
    by (simp add: reverb_tap_def REVERB_MOD_AMP_SAMPLES_def lfo_off z s r r2 r3 m int_and_2047
        REVERB_DELAY_LEN_def Let_def e)
qed


lemma mask_idx_bound:
  fixes i :: "32 word"
  shows "unat ((i + 1) AND 2047) < 2048" and "unat ((i + 1) AND 63) < 64"
  using word_mask_bound [of "i + 1" 2047] word_mask_bound [of "i + 1" 63] by simp_all

lemma reverb_process_closed:
  assumes wf: "reverb_wf c"
  shows "DspReverb_Process damp_q15 feedback_q15 x c lfo_step =
     (let i = unat (rv_delay_idx c); a1 = unat (rv_ap1_idx c); a2 = 64 + unat (rv_ap2_idx c);
          d = rv_delay c ! i;
          lpv = reverb_damp damp_q15 (rv_lp c) d;
          fb = s32 (asr (feedback_q15 * lpv) 15);
          b1 = rv_ap_buf c ! a1;
          b2 = rv_ap_buf c ! a2;
          y1 = allpass_out d b1;
          y2 = allpass_out y1 b2;
          n1 = clamp_s24 (s32 (d + s32 (asr (REVERB_AP_G_Q15 * s32 (b1 - s32 (asr (REVERB_AP_G_Q15 * d) 15))) 15)));
          n2 = clamp_s24 (s32 (y1 + s32 (asr (REVERB_AP_G_Q15 * s32 (b2 - s32 (asr (REVERB_AP_G_Q15 * y1) 15))) 15)))
      in Some (y2,
           \<lparr>rv_delay = (rv_delay c)[i := clamp_s24 (s32 (x + fb))],
            rv_delay_idx = (rv_delay_idx c + 1) AND 2047, rv_lp = lpv,
            rv_ap_buf = (rv_ap_buf c)[a1 := n1, a2 := n2],
            rv_ap1_idx = (rv_ap1_idx c + 1) AND 63, rv_ap2_idx = (rv_ap2_idx c + 1) AND 63,
            rv_lfo_phase = rv_lfo_phase c + lfo_step\<rparr>))"
proof -
  from wf have len: "length (rv_delay c) = 2048" "length (rv_ap_buf c) = 128"
    and ix: "unat (rv_delay_idx c) < 2048" "unat (rv_ap1_idx c) < 64" "unat (rv_ap2_idx c) < 64"
    and el: "in_s24 (rv_delay c ! unat (rv_delay_idx c))"
    by (auto simp: reverb_wf_def list_all_length)
  note tap = reverb_tap_raw [OF len(1) ix(1) el]
  have s1: "0 + unat (rv_ap1_idx c) < length (rv_ap_buf c)" using len ix by simp
  have s2: "64 + unat (rv_ap2_idx c) < length ((rv_ap_buf c)[u := v])" for u v
    using len ix by simp
  have ne: "(rv_ap_buf c)[unat (rv_ap1_idx c) := v] ! (64 + unat (rv_ap2_idx c))
      = rv_ap_buf c ! (64 + unat (rv_ap2_idx c))" for v
    using ix by simp
  show ?thesis
    using ix len
    by (simp add: DspReverb_Process_def tap Let_def allpass_step [OF s1] allpass_step [OF s2]
        REVERB_AP1_LEN_def REVERB_DELAY_MASK_def REVERB_AP1_MASK_def REVERB_AP2_MASK_def
        reverb_damp_def ne)
qed

lemma reverb_process_wf:
  assumes wf: "reverb_wf c"
  shows "\<exists>y c'. DspReverb_Process damp_q15 feedback_q15 x c lfo_step = Some (y, c')
      \<and> in_s24 y \<and> reverb_wf c'"
  using wf
  by (simp add: reverb_process_closed [OF wf] Let_def reverb_wf_def in_s24_allpass_out
      mask_idx_bound list_all_update in_s24_clamp)

lemma reverb_run_wf:
  "reverb_wf c \<Longrightarrow>
   \<exists>ys c'. reverb_run damp_q15 feedback_q15 c lfo_step xs = Some (ys, c')
      \<and> length ys = length xs \<and> list_all in_s24 ys \<and> reverb_wf c'"
proof (induction xs arbitrary: c)
  case Nil
  then show ?case by simp
next
  case (Cons x xs)
  from reverb_process_wf [OF Cons.prems, of damp_q15 feedback_q15 x lfo_step]
  obtain y c1 where p: "DspReverb_Process damp_q15 feedback_q15 x c lfo_step = Some (y, c1)"
    and y: "in_s24 y" and wf1: "reverb_wf c1" by blast
  from Cons.IH [OF wf1]
  obtain ys c2 where r: "reverb_run damp_q15 feedback_q15 c1 lfo_step xs = Some (ys, c2)"
    and l: "length ys = length xs" and a: "list_all in_s24 ys" and wf2: "reverb_wf c2" by blast
  show ?case using p r l a y wf2 by simp
qed


lemma reverb_example_wf: "reverb_wf reverb_example"
  by (simp add: reverb_example_def reverb_wf_def list_all_replicate_iff list_all_update in_s24_def)

lemma in_s16_imp_s24: "in_s16 v \<Longrightarrow> in_s24 v"
  by (simp add: in_s16_def in_s24_def)

lemma list_all_s16_s24: "list_all in_s16 xs \<Longrightarrow> list_all in_s24 xs"
  by (induction xs) (auto simp: in_s16_imp_s24)

section \<open>Saturation of the delay and reverb buffers\<close>

text \<open>
  C1.  From a well-formed delay channel, for every feedback value and every list of input
  samples, \<open>DspDelay_Process\<close> returns for each sample, every output lies in
  \<open>[-8388608, 8388607]\<close>, and the buffer afterwards holds only values of that range (indeed
  16-bit values); the state stays well-formed, so this holds after every further sample.
  Likewise from a well-formed reverb channel, for every damping and feedback value:
  every output of \<open>DspReverb_Process\<close> and every entry of the delay line and of the allpass
  buffer lies in the sample range.  The feedback 32768 and inputs at the ends of the
  24-bit range are included; the state after initialisation is well-formed.
\<close>

theorem C1_buffers_and_outputs_bounded:
  "(delay_wf buf st \<longrightarrow>
      (\<exists>ys buf' st'. delay_run fbq buf st xs = Some (ys, buf', st')
         \<and> length ys = length xs \<and> list_all in_s24 ys
         \<and> list_all in_s24 buf' \<and> delay_wf buf' st'))
   \<and> (reverb_wf c \<longrightarrow>
      (\<exists>zs c'. reverb_run damp_q15 feedback_q15 c lfo_step xs = Some (zs, c')
         \<and> length zs = length xs \<and> list_all in_s24 zs
         \<and> list_all in_s24 (rv_delay c') \<and> list_all in_s24 (rv_ap_buf c') \<and> reverb_wf c'))"
proof -
  have d: "\<exists>ys buf' st'. delay_run fbq buf st xs = Some (ys, buf', st')
         \<and> length ys = length xs \<and> list_all in_s24 ys
         \<and> list_all in_s24 buf' \<and> delay_wf buf' st'" if "delay_wf buf st"
  proof -
    from run_wf [OF that, of fbq xs]
    obtain ys buf' st' where r: "delay_run fbq buf st xs = Some (ys, buf', st')"
      "length ys = length xs" "list_all in_s24 ys" "delay_wf buf' st'" by blast
    from r(4) have "list_all in_s24 buf'" by (simp add: delay_wf_def list_all_s16_s24)
    with r show ?thesis by blast
  qed
  have r: "\<exists>zs c'. reverb_run damp_q15 feedback_q15 c lfo_step xs = Some (zs, c')
         \<and> length zs = length xs \<and> list_all in_s24 zs
         \<and> list_all in_s24 (rv_delay c') \<and> list_all in_s24 (rv_ap_buf c') \<and> reverb_wf c'"
    if "reverb_wf c"
  proof -
    from reverb_run_wf [OF that, of damp_q15 feedback_q15 lfo_step xs]
    obtain zs c' where r: "reverb_run damp_q15 feedback_q15 c lfo_step xs = Some (zs, c')"
      "length zs = length xs" "list_all in_s24 zs" "reverb_wf c'" by blast
    from r(4) have "list_all in_s24 (rv_delay c')" "list_all in_s24 (rv_ap_buf c')"
      by (simp_all add: reverb_wf_def)
    with r show ?thesis by blast
  qed
  from d r show ?thesis by blast
qed

theorem C1_buffers_and_outputs_bounded_witness:
  "delay_wf (s_delay_buf_l (m_delay boot_state)) (s_delay_l (m_delay boot_state))
   \<and> reverb_wf (s_reverb_l (m_reverb boot_state))
   \<and> (\<exists>ys buf' st'. delay_run 32768 (s_delay_buf_l (m_delay boot_state))
          (s_delay_l (m_delay boot_state)) [8388607, - 8388608, 8388607] = Some (ys, buf', st')
         \<and> list_all in_s24 ys \<and> list_all in_s24 buf')
   \<and> (\<exists>zs c'. reverb_run 8192 32768 (s_reverb_l (m_reverb boot_state)) 65536
          [8388607, - 8388608, 8388607] = Some (zs, c')
         \<and> list_all in_s24 zs \<and> list_all in_s24 (rv_delay c') \<and> list_all in_s24 (rv_ap_buf c'))"
proof -
  have a: "delay_wf (s_delay_buf_l (m_delay boot_state)) (s_delay_l (m_delay boot_state))"
    by (simp add: boot_state_def delay_wf_def delay_zero_def list_all_replicate_iff in_s24_def
        in_s16_def DELAY_LEN_def DELAY_DECIM_def)
  have b: "reverb_wf (s_reverb_l (m_reverb boot_state))"
    by (simp add: boot_state_def reverb_wf_def list_all_replicate_iff in_s24_def)
  from a b C1_buffers_and_outputs_bounded [of "s_delay_buf_l (m_delay boot_state)"
      "s_delay_l (m_delay boot_state)" 32768 "[8388607, - 8388608, 8388607]"
      "s_reverb_l (m_reverb boot_state)" 8192 32768 65536]
  show ?thesis by blast
qed

section \<open>Reverb: what the allpass stages receive\<close>

text \<open>
  C7, as the code has it.  In \<open>DspReverb_Process\<close> on a well-formed channel the value
  passed through the two allpass stages in series (gain 22938 in Q15, cursors advanced
  modulo 64) is the raw tap \<open>d\<close> read from the delay line at the cursor, not the output
  \<open>lpv\<close> of the damping low-pass: the first stage computes its output and the value it
  stores back from \<open>d\<close> and the value read from its buffer, the second stage from the
  output of the first.  The damped value \<open>lpv\<close> becomes the damping state and, scaled by the
  feedback and added to the input, the value written back to the delay line.  The whole
  result of the call is given.
\<close>

theorem C7_allpass_fed_by_raw_tap:
  "reverb_wf c \<longrightarrow>
     DspReverb_Process dq fq x c lfo_step =
       (let i = unat (rv_delay_idx c);
            a1 = unat (rv_ap1_idx c);
            a2 = 64 + unat (rv_ap2_idx c);
            d = rv_delay c ! i;
            lpv = reverb_damp dq (rv_lp c) d;
            b1 = rv_ap_buf c ! a1;
            b2 = rv_ap_buf c ! a2;
            y1 = allpass_out d b1
        in Some (allpass_out y1 b2,
             \<lparr>rv_delay = (rv_delay c)[i := clamp_s24 (s32 (x + s32 (asr (fq * lpv) 15)))],
              rv_delay_idx = (rv_delay_idx c + 1) AND 2047,
              rv_lp = lpv,
              rv_ap_buf = (rv_ap_buf c)[a1 := allpass_store d b1, a2 := allpass_store y1 b2],
              rv_ap1_idx = (rv_ap1_idx c + 1) AND 63,
              rv_ap2_idx = (rv_ap2_idx c + 1) AND 63,
              rv_lfo_phase = rv_lfo_phase c + lfo_step\<rparr>))"
proof
  assume wf: "reverb_wf c"
  show "DspReverb_Process dq fq x c lfo_step =
       (let i = unat (rv_delay_idx c);
            a1 = unat (rv_ap1_idx c);
            a2 = 64 + unat (rv_ap2_idx c);
            d = rv_delay c ! i;
            lpv = reverb_damp dq (rv_lp c) d;
            b1 = rv_ap_buf c ! a1;
            b2 = rv_ap_buf c ! a2;
            y1 = allpass_out d b1
        in Some (allpass_out y1 b2,
             \<lparr>rv_delay = (rv_delay c)[i := clamp_s24 (s32 (x + s32 (asr (fq * lpv) 15)))],
              rv_delay_idx = (rv_delay_idx c + 1) AND 2047,
              rv_lp = lpv,
              rv_ap_buf = (rv_ap_buf c)[a1 := allpass_store d b1, a2 := allpass_store y1 b2],
              rv_ap1_idx = (rv_ap1_idx c + 1) AND 63,
              rv_ap2_idx = (rv_ap2_idx c + 1) AND 63,
              rv_lfo_phase = rv_lfo_phase c + lfo_step\<rparr>))"
    by (simp only: reverb_process_closed [OF wf] Let_def allpass_store_def)
qed

theorem C7_allpass_fed_by_raw_tap_witness:
  "reverb_wf reverb_example
   \<and> DspReverb_Process 8192 22000 5 reverb_example 77824 =
       Some (491,
         \<lparr>rv_delay = (replicate 2048 0)[0 := 172], rv_delay_idx = 1, rv_lp = 250,
          rv_ap_buf = (replicate 128 0)[0 := 509, 64 := - 357],
          rv_ap1_idx = 1, rv_ap2_idx = 1, rv_lfo_phase = 77824\<rparr>)"
proof -
  note t = C7_allpass_fed_by_raw_tap [where c = reverb_example and dq = 8192
      and fq = 22000 and x = 5 and lfo_step = 77824, THEN mp, OF reverb_example_wf,
      unfolded Let_def]
  have "DspReverb_Process 8192 22000 5 reverb_example 77824 =
       Some (491,
         \<lparr>rv_delay = (replicate 2048 0)[0 := 172], rv_delay_idx = 1, rv_lp = 250,
          rv_ap_buf = (replicate 128 0)[0 := 509, 64 := - 357],
          rv_ap1_idx = 1, rv_ap2_idx = 1, rv_lfo_phase = 77824\<rparr>)"
    by (subst t)
       (simp add: reverb_example_def allpass_out_def allpass_store_def reverb_damp_def
          REVERB_AP_G_Q15_def asr_def s32_def clamp_s24_def)
  with reverb_example_wf show ?thesis by blast
qed

text \<open>
  The claim as the specification words it fails: with 1000 under the cursor and damping
  8192 the damped tap is 250, and passing it through the two stages would give 123; the
  code returns 491, the two stages applied to the raw 1000.
\<close>

theorem C7_damped_tap_counterexample:
  "map_option fst (DspReverb_Process 8192 22000 0 reverb_example 65536) = Some 491
   \<and> reverb_damp 8192 (rv_lp reverb_example) 1000 = 250
   \<and> reverb_wet_of_damped_tap 8192 reverb_example = 123"
  by (simp add: reverb_process_closed [OF reverb_example_wf] Let_def reverb_wet_of_damped_tap_def)
     (simp add: reverb_example_def allpass_out_def reverb_damp_def REVERB_AP_G_Q15_def asr_def
        s32_def clamp_s24_def)

section \<open>Silence: auxiliary facts\<close>

lemma s32_0: "s32 0 = 0" by (simp add: s32_def)
lemma asr_0: "asr 0 n = 0" by (simp add: asr_def)
lemma clamp_0: "clamp_s24 0 = 0" by (simp add: clamp_s24_def)

lemma DcBlock_zero: "DspFilters_DcBlock dc_zero 0 = (0, dc_zero)"
  by (simp add: DspFilters_DcBlock_def dc_zero_def s32_0 asr_0 clamp_0)

lemma Hpf1_zero: "DspFilters_Hpf1 dc_zero 0 r = (0, dc_zero)"
  by (simp add: DspFilters_Hpf1_def dc_zero_def s32_0 asr_0 clamp_0)

lemma gain_zero: "gain_s32_q8 0 g = 0"
  by (simp add: gain_s32_q8_def s32_0 asr_0)

lemma CompressOne_zero: "fst (DspFilters_CompressOne st 0) = 0"
  by (simp add: DspFilters_CompressOne_def Let_def s32_0 asr_0 clamp_0)

lemma Limiter_zero: "fst (DspFilters_Limiter st 0 0) = (0, 0)"
  by (simp add: DspFilters_Limiter_def Let_def s32_0 asr_0 clamp_0)

lemma frame_pre_zero:
  assumes "s_dc_l fs = dc_zero" "s_dc_r fs = dc_zero"
    "s_clean_hpf_l fs = dc_zero" "s_clean_hpf_r fs = dc_zero"
  shows "fst (frame_pre fs 0 0) = (0, 0)"
    and "s_dc_l (snd (frame_pre fs 0 0)) = dc_zero"
    and "s_dc_r (snd (frame_pre fs 0 0)) = dc_zero"
    and "s_clean_hpf_l (snd (frame_pre fs 0 0)) = dc_zero"
    and "s_clean_hpf_r (snd (frame_pre fs 0 0)) = dc_zero"
  using CompressOne_zero [of "s_comp_l fs"] CompressOne_zero [of "s_comp_r fs"]
  by (simp_all add: frame_pre_def assms DcBlock_zero Hpf1_zero gain_zero
      DspFilters_CompressStereo_def split_beta)

lemma frame_post_zero:
  "fst (frame_post s 0 0) = (0, 0)"
  "s_fx_mask (snd (frame_post s 0 0)) = s_fx_mask s"
  "s_dc_l (m_filters (snd (frame_post s 0 0))) = s_dc_l (m_filters s)"
  "s_dc_r (m_filters (snd (frame_post s 0 0))) = s_dc_r (m_filters s)"
  "s_clean_hpf_l (m_filters (snd (frame_post s 0 0))) = s_clean_hpf_l (m_filters s)"
  "s_clean_hpf_r (m_filters (snd (frame_post s 0 0))) = s_clean_hpf_r (m_filters s)"
  using Limiter_zero [of "s_limiter (m_filters s)"]
  by (simp_all add: frame_post_def Let_def gain_zero s32_0 asr_0 clamp_0 split_beta)

lemma frame_quiet:
  assumes "quiet s"
  shows "\<exists>s'. AppDsp_ProcessFrame s 0 0 = Some ((0, 0), s') \<and> quiet s'"
proof -
  from assms have m: "s_fx_mask s = 0" and f: "s_dc_l (m_filters s) = dc_zero"
    "s_dc_r (m_filters s) = dc_zero" "s_clean_hpf_l (m_filters s) = dc_zero"
    "s_clean_hpf_r (m_filters s) = dc_zero" by (simp_all add: quiet_def)
  note pre = frame_pre_zero [OF f]
  define s1 where "s1 = s\<lparr>m_filters := snd (frame_pre (m_filters s) 0 0)\<rparr>"
  have q1: "quiet s1" using m pre by (simp add: s1_def quiet_def)
  have "AppDsp_ProcessFrame s 0 0 = Some (frame_post s1 0 0)"
    using pre(1) by (simp add: AppDsp_ProcessFrame_def m Let_def split_beta s1_def)
  moreover have "fst (frame_post s1 0 0) = (0, 0)" by (rule frame_post_zero)
  moreover have "quiet (snd (frame_post s1 0 0))"
    using q1 by (simp add: quiet_def frame_post_zero)
  ultimately show ?thesis by (metis prod.collapse)
qed

lemma frames_quiet:
  "quiet s \<Longrightarrow> \<exists>s'. process_frames s (replicate n (0, 0)) = Some (replicate n (0, 0), s') \<and> quiet s'"
proof (induction n arbitrary: s)
  case 0
  then show ?case by simp
next
  case (Suc n)
  from frame_quiet [OF Suc.prems] obtain s1 where
    a: "AppDsp_ProcessFrame s 0 0 = Some ((0, 0), s1)" and q: "quiet s1" by blast
  from Suc.IH [OF q] obtain s2 where
    b: "process_frames s1 (replicate n (0, 0)) = Some (replicate n (0, 0), s2)" and q2: "quiet s2"
    by blast
  show ?case using a b q2 by simp
qed

lemma init_quiet: "quiet (AppDsp_Init s)"
  by (simp add: quiet_def AppDsp_Init_def DspFilters_Init_def)


lemma input_color_zero: "input_color_process_s24 0 = 0"
  by (simp add: input_color_process_s24_def softclip_q15_def q15_mul_def Let_def gain_zero clamp_0
      asr_0 s32_0 c_div_def)

lemma frame_quiet_mono:
  assumes "quiet s"
  shows "\<exists>s'. AppDsp_ProcessFrame_mono s 0 0 = Some ((0, 0), s') \<and> quiet s'"
proof -
  from assms have m: "s_fx_mask s = 0" and f: "s_dc_l (m_filters s) = dc_zero"
    "s_dc_r (m_filters s) = dc_zero" "s_clean_hpf_l (m_filters s) = dc_zero"
    "s_clean_hpf_r (m_filters s) = dc_zero" by (simp_all add: quiet_def)
  note pre = frame_pre_zero [OF f]
  define s1 where "s1 = s\<lparr>m_filters := snd (frame_pre (m_filters s) 0 0)\<rparr>"
  have q1: "quiet s1" using m pre by (simp add: s1_def quiet_def)
  have "AppDsp_ProcessFrame_mono s 0 0 = Some (frame_post s1 0 0)"
    using pre(1)
    by (simp add: AppDsp_ProcessFrame_mono_def m Let_def split_beta s1_def input_color_zero)
  moreover have "fst (frame_post s1 0 0) = (0, 0)" by (rule frame_post_zero)
  moreover have "quiet (snd (frame_post s1 0 0))"
    using q1 by (simp add: quiet_def frame_post_zero)
  ultimately show ?thesis by (metis prod.collapse)
qed

lemma frames_quiet_mono:
  "quiet s \<Longrightarrow>
   \<exists>s'. process_frames_mono s (replicate n (0, 0)) = Some (replicate n (0, 0), s') \<and> quiet s'"
proof (induction n arbitrary: s)
  case 0
  then show ?case by simp
next
  case (Suc n)
  from frame_quiet_mono [OF Suc.prems] obtain s1 where
    a: "AppDsp_ProcessFrame_mono s 0 0 = Some ((0, 0), s1)" and q: "quiet s1" by blast
  from Suc.IH [OF q] obtain s2 where
    b: "process_frames_mono s1 (replicate n (0, 0)) = Some (replicate n (0, 0), s2)"
    and q2: "quiet s2" by blast
  show ?case using a b q2 by simp
qed

lemma init_quiet_mono: "quiet (AppDsp_Init_mono s)"
  by (simp add: quiet_def AppDsp_Init_mono_def)

section \<open>Silence in, silence out\<close>

text \<open>
  C8.  After \<open>AppDsp_Init\<close>, whatever the state before (in particular from program start,
  with the default parameters), any number \<open>n\<close> of consecutive calls of
  \<open>AppDsp_ProcessFrame\<close> on the all-zero frame return, each of them, the all-zero frame: the
  outputs are exactly 0, not only near 0.  The same holds for the single-file variant with
  its input coloration stage.  Ten consecutive calls are the case \<open>n = 10\<close>.
\<close>

theorem C8_silence_stays_silence:
  "(\<exists>s'. process_frames (AppDsp_Init s) (replicate n (0, 0)) = Some (replicate n (0, 0), s'))
   \<and> (\<exists>s'. process_frames_mono (AppDsp_Init_mono s) (replicate n (0, 0))
          = Some (replicate n (0, 0), s'))"
  using frames_quiet [OF init_quiet, of s n] frames_quiet_mono [OF init_quiet_mono, of s n]
  by blast

theorem C8_silence_stays_silence_witness:
  "(\<exists>s'. process_frames (AppDsp_Init boot_state) (replicate 10 (0, 0))
          = Some (replicate 10 (0, 0), s'))
   \<and> (\<exists>s'. process_frames_mono (AppDsp_Init_mono boot_state) (replicate 10 (0, 0))
          = Some (replicate 10 (0, 0), s'))"
  using C8_silence_stays_silence [of boot_state 10] by simp

end
